theory Spec2Isabelle
  imports Complex_Main "HOL-Library.AList"
begin

section \<open>Strings\<close>

text \<open>
  A Python \<^verbatim>\<open>str\<close> is modelled as a \<^typ>\<open>string\<close> whose characters are the code
  points below 256 (Latin-1), which covers the Portuguese names and labels the program
  handles. On that range \<^verbatim>\<open>str.lower\<close> works character by character: it adds 32 to
  \<^verbatim>\<open>A-Z\<close> and to the accented capitals \<^verbatim>\<open>U+00C0-U+00DE\<close> other than the
  multiplication sign \<^verbatim>\<open>U+00D7\<close>. \<^verbatim>\<open>str.strip\<close> removes the leading and trailing
  characters for which \<^verbatim>\<open>str.isspace\<close> holds.
\<close>

definition lower_char :: "char \<Rightarrow> char" where
  "lower_char c =
     (let n = (of_char c :: nat)
      in if (65 \<le> n \<and> n \<le> 90) \<or> (192 \<le> n \<and> n \<le> 214) \<or> (216 \<le> n \<and> n \<le> 222)
         then char_of (n + 32) else c)"

definition lower :: "string \<Rightarrow> string" where
  "lower s = map lower_char s"

definition isspace :: "char \<Rightarrow> bool" where
  "isspace c =
     (let n = (of_char c :: nat)
      in (9 \<le> n \<and> n \<le> 13) \<or> (28 \<le> n \<and> n \<le> 32) \<or> n = 133 \<or> n = 160)"

definition strip :: "string \<Rightarrow> string" where
  "strip s = rev (dropWhile isspace (rev (dropWhile isspace s)))"

section \<open>Status normalizer (cashbarber\_extractor.py)\<close>

definition status_map :: "(string \<times> string) list" where
  "status_map =
     [(''Em dia'', ''ativo''),
      (''Pagamento recusado'', ''inadimplente''),
      (''Cancelado'', ''cancelado''),
      (''Pendente'', ''pendente'')]"

text \<open>\<^verbatim>\<open>status_map.get(status, 'desconhecido')\<close>\<close>

definition normalize_status :: "string \<Rightarrow> string" where
  "normalize_status status =
     (case map_of status_map status of Some v \<Rightarrow> v | None \<Rightarrow> ''desconhecido'')"

section \<open>Name matcher (supabase\_integration.py)\<close>

record ClienteSupabase =
  id_cliente :: string
  nome :: string
  telefone :: "string option"
  plano_atual :: "string option"
  status_assinatura :: "string option"

text \<open>
  \<^verbatim>\<open>SequenceMatcher(None, a, b).ratio()\<close> belongs to the standard library, not to the
  program: it is a parameter \<open>ratio\<close> of the model. A float is modelled by the real number
  it denotes, so that \<^verbatim>\<open>>\<close> and \<^verbatim>\<open>>=\<close> on floats are the order of the reals.
\<close>

type_synonym similarity = "string \<Rightarrow> string \<Rightarrow> real"

text \<open>
  The \<^verbatim>\<open>for\<close> loop of \<^verbatim>\<open>find_cliente_by_name\<close>, started from the running
  \<^verbatim>\<open>best_match\<close> and \<^verbatim>\<open>best_ratio\<close>. \<open>Inl\<close> is the \<^verbatim>\<open>return cliente\<close> inside the
  loop; \<open>Inr\<close> carries the two variables when the loop runs to its end.
\<close>

fun scan_clientes ::
  "similarity \<Rightarrow> string \<Rightarrow> ClienteSupabase list \<Rightarrow> ClienteSupabase option \<Rightarrow> real
     \<Rightarrow> ClienteSupabase + (ClienteSupabase option \<times> real)" where
  "scan_clientes ratio nome_busca_lower [] best_match best_ratio = Inr (best_match, best_ratio)"
| "scan_clientes ratio nome_busca_lower (cliente # rest) best_match best_ratio =
     (let nome_cliente_lower = strip (lower (nome cliente))
      in if nome_busca_lower = nome_cliente_lower then Inl cliente
         else let r = ratio nome_busca_lower nome_cliente_lower
              in if r > best_ratio
                 then scan_clientes ratio nome_busca_lower rest (Some cliente) r
                 else scan_clientes ratio nome_busca_lower rest best_match best_ratio)"

definition find_cliente_by_name ::
  "similarity \<Rightarrow> string \<Rightarrow> ClienteSupabase list \<Rightarrow> real \<Rightarrow> ClienteSupabase option" where
  "find_cliente_by_name ratio nome_busca clientes threshold =
     (let nome_busca_lower = strip (lower nome_busca)
      in case scan_clientes ratio nome_busca_lower clientes None 0 of
           Inl cliente \<Rightarrow> Some cliente
         | Inr (best_match, best_ratio) \<Rightarrow>
             if best_ratio \<ge> threshold then best_match else None)"

text \<open>The default of the parameter \<^verbatim>\<open>threshold\<close>: the double written \<^verbatim>\<open>0.85\<close>.\<close>

definition default_threshold :: real where
  "default_threshold = 7656119366529843 / 9007199254740992"

text \<open>
  The ratio the loop computes for a candidate, and the test of its \<^verbatim>\<open>if\<close>: vocabulary
  for the statements below.
\<close>

definition score :: "similarity \<Rightarrow> string \<Rightarrow> ClienteSupabase \<Rightarrow> real" where
  "score ratio nome_busca c = ratio (strip (lower nome_busca)) (strip (lower (nome c)))"

definition exact_match :: "string \<Rightarrow> ClienteSupabase \<Rightarrow> bool" where
  "exact_match nome_busca c \<longleftrightarrow> strip (lower nome_busca) = strip (lower (nome c))"

section \<open>The database client\<close>

text \<open>
  The Supabase client is an external library. It is a pair of operations on a state
  \<open>'w\<close> of the outside world (the database, the network):
  \<^verbatim>\<open>table(t).select('*').execute()\<close> and
  \<^verbatim>\<open>table(t).update(data).eq('id', i).execute()\<close>. Either may raise; a raised
  exception is \<open>Inl\<close>, respectively \<open>Some\<close>. A row of the response is the dictionary
  of its columns, kept as the list of its keys and values. The columns are text columns:
  a value is a string, or \<^verbatim>\<open>None\<close> where the database holds null. A key that is
  present with the value \<^verbatim>\<open>None\<close> and a key that is absent are different rows.
\<close>

datatype error = APIError | KeyError string | AttributeError

type_synonym row = "(string \<times> string option) list"

text \<open>
  The identifier given to \<^verbatim>\<open>eq\<close> is whatever \<^verbatim>\<open>cliente.id\<close> holds, a string or
  \<^verbatim>\<open>None\<close>.
\<close>

record 'w supabase_client =
  select_all :: "string \<Rightarrow> 'w \<Rightarrow> (error + row list) \<times> 'w"
  update_eq ::
    "string \<Rightarrow> (string \<times> string) list \<Rightarrow> string option \<Rightarrow> 'w \<Rightarrow> error option \<times> 'w"

text \<open>
  Every call made on the client is recorded, with its arguments and whether it returned
  (\<open>True\<close>) or raised (\<open>False\<close>).
\<close>

datatype db_call =
    Select string bool
  | Update string "(string \<times> string) list" "string option" bool

record 'w db =
  world :: 'w
  calls :: "db_call list"

fun is_update :: "db_call \<Rightarrow> bool" where
  "is_update (Update t d i ok) = True"
| "is_update (Select t ok) = False"

fun call_ok :: "db_call \<Rightarrow> bool" where
  "call_ok (Update t d i ok) = ok"
| "call_ok (Select t ok) = ok"

fun call_request :: "db_call \<Rightarrow> db_call" where
  "call_request (Update t d i ok) = Update t d i True"
| "call_request (Select t ok) = Select t True"

definition new_calls :: "'w db \<Rightarrow> 'w db \<Rightarrow> db_call list" where
  "new_calls s s' = drop (length (calls s)) (calls s')"

section \<open>SupabaseIntegration (supabase\_integration.py)\<close>

text \<open>
  The object after \<^verbatim>\<open>__init__\<close>: the table and column names it resolved and the client
  it created (\<^verbatim>\<open>url\<close> and \<^verbatim>\<open>key\<close> serve only to create the client).
\<close>

record 'w SupabaseIntegration =
  table_name :: string
  column_nome :: string
  column_plano :: string
  column_status :: string
  client :: "'w supabase_client"

text \<open>\<^verbatim>\<open>os.getenv(name, default)\<close> on the process environment.\<close>

definition getenv :: "(string \<rightharpoonup> string) \<Rightarrow> string \<Rightarrow> string \<Rightarrow> string" where
  "getenv environ name dflt = (case environ name of None \<Rightarrow> dflt | Some v \<Rightarrow> v)"

text \<open>
  A \<^verbatim>\<open>ClienteSupabase\<close> object as it exists at run time. Python does not check the
  annotations of a dataclass, so \<^verbatim>\<open>id\<close> and \<^verbatim>\<open>nome\<close>, declared \<^verbatim>\<open>str\<close>, hold
  \<^verbatim>\<open>None\<close> when the row has null in that column. The record \<open>ClienteSupabase\<close> above
  is the object whose fields have their declared types; \<open>obj_of\<close> is its run-time form.
\<close>

record ClienteObj =
  obj_id :: "string option"
  obj_nome :: "string option"
  obj_telefone :: "string option"
  obj_plano_atual :: "string option"
  obj_status_assinatura :: "string option"

definition obj_of :: "ClienteSupabase \<Rightarrow> ClienteObj" where
  "obj_of c =
     \<lparr>obj_id = Some (id_cliente c), obj_nome = Some (nome c), obj_telefone = telefone c,
      obj_plano_atual = plano_atual c, obj_status_assinatura = status_assinatura c\<rparr>"

text \<open>
  \<^verbatim>\<open>row.get(key, default)\<close>: the default is returned only when the key is absent; a
  key that is present with \<^verbatim>\<open>None\<close> gives \<^verbatim>\<open>None\<close>. \<^verbatim>\<open>row.get(key)\<close> is
  \<^verbatim>\<open>row.get(key, None)\<close>.
\<close>

definition row_get :: "row \<Rightarrow> string \<Rightarrow> string option \<Rightarrow> string option" where
  "row_get row key dflt = (case map_of row key of None \<Rightarrow> dflt | Some v \<Rightarrow> v)"

text \<open>
  One \<^verbatim>\<open>ClienteSupabase(...)\<close> of the list comprehension: \<^verbatim>\<open>row['id']\<close> raises
  \<^verbatim>\<open>KeyError\<close> when the row has no such key, \<^verbatim>\<open>row.get\<close> does not.
\<close>

definition row_to_cliente :: "'w SupabaseIntegration \<Rightarrow> row \<Rightarrow> error + ClienteObj" where
  "row_to_cliente self row =
     (case map_of row ''id'' of
        None \<Rightarrow> Inl (KeyError ''id'')
      | Some i \<Rightarrow>
          Inr \<lparr>obj_id = i,
               obj_nome = row_get row (column_nome self) (Some []),
               obj_telefone = row_get row ''telefone'' None,
               obj_plano_atual = row_get row (column_plano self) None,
               obj_status_assinatura = row_get row (column_status self) None\<rparr>)"

fun rows_to_clientes :: "'w SupabaseIntegration \<Rightarrow> row list \<Rightarrow> error + ClienteObj list" where
  "rows_to_clientes self [] = Inr []"
| "rows_to_clientes self (row # rows) =
     (case row_to_cliente self row of
        Inl e \<Rightarrow> Inl e
      | Inr c \<Rightarrow>
          (case rows_to_clientes self rows of
             Inl e \<Rightarrow> Inl e
           | Inr cs \<Rightarrow> Inr (c # cs)))"

text \<open>\<^verbatim>\<open>get_all_clientes\<close> logs and re-raises whatever the query or the conversion raises.\<close>

definition get_all_clientes ::
  "'w SupabaseIntegration \<Rightarrow> 'w db \<Rightarrow> (error + ClienteObj list) \<times> 'w db" where
  "get_all_clientes self s =
     (case select_all (client self) (table_name self) (world s) of
        (Inl e, w) \<Rightarrow>
          (Inl e, s\<lparr>world := w, calls := calls s @ [Select (table_name self) False]\<rparr>)
      | (Inr rows, w) \<Rightarrow>
          (rows_to_clientes self rows,
           s\<lparr>world := w, calls := calls s @ [Select (table_name self) True]\<rparr>))"

text \<open>
  \<^verbatim>\<open>find_cliente_by_name\<close> on the objects of the run time. It is the loop of
  \<open>scan_clientes\<close>, statement for statement, with the one step the declared types hide:
  \<^verbatim>\<open>cliente.nome.lower()\<close> raises \<^verbatim>\<open>AttributeError\<close> when \<^verbatim>\<open>cliente.nome\<close> is
  \<^verbatim>\<open>None\<close>. The loop raises when it reaches such a customer; it does not reach the
  customers that follow an exact match. Nothing in the function or in its caller
  catches the exception.
\<close>

fun scan_objs ::
  "similarity \<Rightarrow> string \<Rightarrow> ClienteObj list \<Rightarrow> ClienteObj option \<Rightarrow> real
     \<Rightarrow> error + (ClienteObj + (ClienteObj option \<times> real))" where
  "scan_objs ratio nome_busca_lower [] best_match best_ratio =
     Inr (Inr (best_match, best_ratio))"
| "scan_objs ratio nome_busca_lower (cliente # rest) best_match best_ratio =
     (case obj_nome cliente of
        None \<Rightarrow> Inl AttributeError
      | Some n \<Rightarrow>
          (let nome_cliente_lower = strip (lower n)
           in if nome_busca_lower = nome_cliente_lower then Inr (Inl cliente)
              else let r = ratio nome_busca_lower nome_cliente_lower
                   in if r > best_ratio
                      then scan_objs ratio nome_busca_lower rest (Some cliente) r
                      else scan_objs ratio nome_busca_lower rest best_match best_ratio))"

definition find_cliente_by_name_obj ::
  "similarity \<Rightarrow> string \<Rightarrow> ClienteObj list \<Rightarrow> real \<Rightarrow> error + ClienteObj option" where
  "find_cliente_by_name_obj ratio nome_busca clientes threshold =
     (let nome_busca_lower = strip (lower nome_busca)
      in case scan_objs ratio nome_busca_lower clientes None 0 of
           Inl e \<Rightarrow> Inl e
         | Inr (Inl cliente) \<Rightarrow> Inr (Some cliente)
         | Inr (Inr (best_match, best_ratio)) \<Rightarrow>
             Inr (if best_ratio \<ge> threshold then best_match else None))"

text \<open>
  The dictionary \<^verbatim>\<open>update_data\<close> of \<^verbatim>\<open>update_cliente\<close>, in insertion order; assigning
  to a key that is present replaces its value.
\<close>

definition build_update_data ::
  "(string \<rightharpoonup> string) \<Rightarrow> 'w SupabaseIntegration \<Rightarrow> string \<Rightarrow> string \<Rightarrow> bool
     \<Rightarrow> (string \<times> string) list" where
  "build_update_data environ self plano status update_timestamp =
     (let update_data =
            AList.update (column_status self) status (AList.update (column_plano self) plano [])
      in if update_timestamp
         then let timestamp_column = getenv environ ''COLUMN_TIMESTAMP'' ''ultima_sincronizacao''
              in AList.update timestamp_column ''now()'' update_data
         else update_data)"

text \<open>
  \<^verbatim>\<open>update_cliente\<close>: one request; \<^verbatim>\<open>True\<close> when it returns, \<^verbatim>\<open>False\<close> from the
  \<^verbatim>\<open>except\<close> clause when it raises.
\<close>

definition update_cliente ::
  "(string \<rightharpoonup> string) \<Rightarrow> 'w SupabaseIntegration \<Rightarrow> string option \<Rightarrow> string \<Rightarrow> string \<Rightarrow> bool
     \<Rightarrow> 'w db \<Rightarrow> bool \<times> 'w db" where
  "update_cliente environ self cliente_id plano status update_timestamp s =
     (let update_data = build_update_data environ self plano status update_timestamp
      in case update_eq (client self) (table_name self) update_data cliente_id (world s) of
           (None, w) \<Rightarrow>
             (True, s\<lparr>world := w,
                      calls := calls s @ [Update (table_name self) update_data cliente_id True]\<rparr>)
         | (Some e, w) \<Rightarrow>
             (False, s\<lparr>world := w,
                       calls := calls s @ [Update (table_name self) update_data cliente_id False]\<rparr>))"

section \<open>Reconciliation (sync\_assinantes)\<close>

text \<open>
  The scraped records are the dictionaries \<^verbatim>\<open>Assinante.to_dict()\<close> builds, with the keys
  \<^verbatim>\<open>nome\<close>, \<^verbatim>\<open>plano\<close>, \<^verbatim>\<open>status\<close> and \<^verbatim>\<open>data_criacao\<close>. The calls to
  \<^verbatim>\<open>logger\<close>, \<^verbatim>\<open>_log_final_stats\<close> included, change neither the statistics nor the
  database and are left out.
\<close>

record Assinante =
  nome_assinante :: string
  plano :: string
  status :: string
  data_criacao :: string

record stats =
  total_cashbarber :: int
  total_supabase :: int
  encontrados :: int
  atualizados :: int
  nao_encontrados :: int
  erros :: int
  nao_encontrados_lista :: "string list"

text \<open>
  The body of the loop of \<^verbatim>\<open>sync_assinantes\<close>, for one scraped record. An exception
  of \<^verbatim>\<open>find_cliente_by_name\<close> leaves the loop and the function: the result is the
  exception, and the database is as the records before have left it.
\<close>

definition sync_step ::
  "similarity \<Rightarrow> (string \<rightharpoonup> string) \<Rightarrow> 'w SupabaseIntegration \<Rightarrow> ClienteObj list \<Rightarrow> bool
     \<Rightarrow> Assinante \<Rightarrow> stats \<times> 'w db \<Rightarrow> (error + stats) \<times> 'w db" where
  "sync_step ratio environ self clientes_supabase dry_run assinante st =
     (let (sts, s) = st
      in case find_cliente_by_name_obj ratio (nome_assinante assinante) clientes_supabase
                default_threshold of
           Inl e \<Rightarrow> (Inl e, s)
         | Inr (Some cliente) \<Rightarrow>
             (let sts = sts\<lparr>encontrados := encontrados sts + 1\<rparr>
              in if \<not> dry_run
                 then let (ok, s') = update_cliente environ self (obj_id cliente)
                                       (plano assinante) (status assinante) True s
                      in if ok then (Inr (sts\<lparr>atualizados := atualizados sts + 1\<rparr>), s')
                         else (Inr (sts\<lparr>erros := erros sts + 1\<rparr>), s')
                 else (Inr (sts\<lparr>atualizados := atualizados sts + 1\<rparr>), s))
         | Inr None \<Rightarrow>
             (Inr (sts\<lparr>nao_encontrados := nao_encontrados sts + 1,
                       nao_encontrados_lista :=
                         nao_encontrados_lista sts @ [nome_assinante assinante]\<rparr>), s))"

fun sync_loop ::
  "similarity \<Rightarrow> (string \<rightharpoonup> string) \<Rightarrow> 'w SupabaseIntegration \<Rightarrow> ClienteObj list \<Rightarrow> bool
     \<Rightarrow> Assinante list \<Rightarrow> stats \<times> 'w db \<Rightarrow> (error + stats) \<times> 'w db" where
  "sync_loop ratio environ self clientes_supabase dry_run [] st = (Inr (fst st), snd st)"
| "sync_loop ratio environ self clientes_supabase dry_run (assinante # rest) st =
     (case sync_step ratio environ self clientes_supabase dry_run assinante st of
        (Inl e, s') \<Rightarrow> (Inl e, s')
      | (Inr sts', s') \<Rightarrow>
          sync_loop ratio environ self clientes_supabase dry_run rest (sts', s'))"

definition sync_assinantes ::
  "similarity \<Rightarrow> (string \<rightharpoonup> string) \<Rightarrow> 'w SupabaseIntegration \<Rightarrow> Assinante list \<Rightarrow> bool
     \<Rightarrow> 'w db \<Rightarrow> (error + stats) \<times> 'w db" where
  "sync_assinantes ratio environ self assinantes_cashbarber dry_run s =
     (case get_all_clientes self s of
        (Inl e, s1) \<Rightarrow> (Inl e, s1)
      | (Inr clientes_supabase, s1) \<Rightarrow>
          (let sts = \<lparr>total_cashbarber = int (length assinantes_cashbarber),
                      total_supabase = int (length clientes_supabase),
                      encontrados = 0,
                      atualizados = 0,
                      nao_encontrados = 0,
                      erros = 0,
                      nao_encontrados_lista = []\<rparr>
           in sync_loop ratio environ self clientes_supabase dry_run
                assinantes_cashbarber (sts, s1)))"

text \<open>
  The lookup of the pass for one scraped record: the customer it is matched to, none, or
  the exception.
\<close>

definition matched :: "similarity \<Rightarrow> ClienteObj list \<Rightarrow> Assinante \<Rightarrow> error + ClienteObj option" where
  "matched ratio clientes_supabase assinante =
     find_cliente_by_name_obj ratio (nome_assinante assinante) clientes_supabase
       default_threshold"

definition has_match :: "similarity \<Rightarrow> ClienteObj list \<Rightarrow> Assinante \<Rightarrow> bool" where
  "has_match ratio clientes_supabase assinante =
     (case matched ratio clientes_supabase assinante of
        Inr (Some c) \<Rightarrow> True
      | Inr None \<Rightarrow> False
      | Inl e \<Rightarrow> False)"

definition no_match :: "similarity \<Rightarrow> ClienteObj list \<Rightarrow> Assinante \<Rightarrow> bool" where
  "no_match ratio clientes_supabase assinante =
     (matched ratio clientes_supabase assinante = Inr None)"

text \<open>
  No lookup of the pass raises. Whether it is so depends on the names alone, the scraped
  ones and the fetched ones, not on the client; it is so when every fetched customer has
  a name, that is when \<^verbatim>\<open>nome\<close> has its declared type in each of them.
\<close>

definition lookups_ok :: "similarity \<Rightarrow> ClienteObj list \<Rightarrow> Assinante list \<Rightarrow> bool" where
  "lookups_ok ratio clientes_supabase as =
     list_all (\<lambda>a. \<not> isl (matched ratio clientes_supabase a)) as"

definition names_present :: "ClienteObj list \<Rightarrow> bool" where
  "names_present clientes = list_all (\<lambda>c. obj_nome c \<noteq> None) clientes"

text \<open>The request the pass sends for a scraped record matched to \<open>cliente\<close>.\<close>

definition request_for ::
  "(string \<rightharpoonup> string) \<Rightarrow> 'w SupabaseIntegration \<Rightarrow> ClienteObj \<Rightarrow> Assinante \<Rightarrow> db_call" where
  "request_for environ self cliente assinante =
     Update (table_name self)
       (build_update_data environ self (plano assinante) (status assinante) True)
       (obj_id cliente) True"

text \<open>
  Vocabulary for the statistics: the scraped records with a match, the names of those
  without, and the statistics after \<open>found\<close> matches, \<open>ok\<close> updates that returned,
  \<open>failed\<close> updates that raised and the unmatched names \<open>missing\<close>.
\<close>

definition count_matched :: "similarity \<Rightarrow> ClienteObj list \<Rightarrow> Assinante list \<Rightarrow> nat" where
  "count_matched ratio clientes_supabase as =
     length (filter (has_match ratio clientes_supabase) as)"

definition unmatched_names ::
  "similarity \<Rightarrow> ClienteObj list \<Rightarrow> Assinante list \<Rightarrow> string list" where
  "unmatched_names ratio clientes_supabase as =
     map nome_assinante (filter (no_match ratio clientes_supabase) as)"

definition tally :: "stats \<Rightarrow> nat \<Rightarrow> nat \<Rightarrow> nat \<Rightarrow> string list \<Rightarrow> stats" where
  "tally sts found ok failed missing =
     sts\<lparr>encontrados := encontrados sts + int found,
         atualizados := atualizados sts + int ok,
         nao_encontrados := nao_encontrados sts + int (length missing),
         erros := erros sts + int failed,
         nao_encontrados_lista := nao_encontrados_lista sts @ missing\<rparr>"

definition initial_stats :: "Assinante list \<Rightarrow> ClienteObj list \<Rightarrow> stats" where
  "initial_stats assinantes_cashbarber clientes_supabase =
     \<lparr>total_cashbarber = int (length assinantes_cashbarber),
      total_supabase = int (length clientes_supabase),
      encontrados = 0, atualizados = 0, nao_encontrados = 0, erros = 0,
      nao_encontrados_lista = []\<rparr>"

text \<open>
  The requests a live pass is to send, in order: one for each scraped record that has a
  match.
\<close>

fun requests ::
  "similarity \<Rightarrow> (string \<rightharpoonup> string) \<Rightarrow> 'w SupabaseIntegration \<Rightarrow> ClienteObj list
     \<Rightarrow> Assinante list \<Rightarrow> db_call list" where
  "requests ratio environ self clientes_supabase [] = []"
| "requests ratio environ self clientes_supabase (assinante # rest) =
     (case matched ratio clientes_supabase assinante of
        Inr (Some c) \<Rightarrow>
          request_for environ self c assinante
            # requests ratio environ self clientes_supabase rest
      | Inr None \<Rightarrow> requests ratio environ self clientes_supabase rest
      | Inl e \<Rightarrow> requests ratio environ self clientes_supabase rest)"

section \<open>Concrete data for the examples\<close>

definition cliente :: "string \<Rightarrow> string \<Rightarrow> ClienteSupabase" where
  "cliente i n =
     \<lparr>id_cliente = i, nome = n, telefone = None, plano_atual = None,
      status_assinatura = None\<rparr>"

text \<open>
  A similarity function for the examples. On the pairs it lists it has the value of
  \<^verbatim>\<open>SequenceMatcher(None, a, b).ratio()\<close>: 1.0 for equal strings, 0.875 for one
  substituted letter in eight. Every other pair is scored 0.0, the value of the library
  for strings with no character in common (\<^verbatim>\<open>abc\<close> and \<^verbatim>\<open>xyz\<close>, \<^verbatim>\<open>ty\<close> and
  \<^verbatim>\<open>ana lima\<close>); where an example scores another pair at 0.0, an exact match
  decides and the score is not used.
\<close>

definition sample_ratio :: similarity where
  "sample_ratio a b =
     (if a = b then 1
      else if a = ''ana lima'' \<and> (b = ''ana limo'' \<or> b = ''ana limb'') then 7 / 8
      else 0)"

text \<open>
  A test double for the client. The query returns the given rows. The world is a script
  of update outcomes, \<open>True\<close> for an update that returns and \<open>False\<close> for one that
  raises; each update consumes one entry, and updates return once the script is used up.
\<close>

definition scripted_client :: "row list \<Rightarrow> bool list supabase_client" where
  "scripted_client rs =
     \<lparr>select_all = (\<lambda>t w. (Inr rs, w)),
      update_eq = (\<lambda>t d i w.
        case w of
          [] \<Rightarrow> (None, [])
        | ok # rest \<Rightarrow> (if ok then None else Some APIError, rest))\<rparr>"

text \<open>
  A table with a fixed set of columns, as the hosted database keeps it: an update that
  names a column the table does not have is rejected, and the client raises; any other
  update overwrites the named columns of the rows with the given id.
\<close>

record table =
  table_columns :: "string list"
  table_rows :: "row list"

definition table_client :: "table supabase_client" where
  "table_client =
     \<lparr>select_all = (\<lambda>t w. (Inr (table_rows w), w)),
      update_eq = (\<lambda>t d i w.
        if list_all (\<lambda>k. k \<in> set (table_columns w)) (map fst d)
        then (None,
              w\<lparr>table_rows :=
                  map (\<lambda>r. if map_of r ''id'' = Some i
                           then fold (\<lambda>(k, v). AList.update k (Some v)) d r else r)
                    (table_rows w)\<rparr>)
        else (Some APIError, w))\<rparr>"

text \<open>The object \<^verbatim>\<open>__init__\<close> builds when the environment names no table or column.\<close>

definition default_self :: "'w supabase_client \<Rightarrow> 'w SupabaseIntegration" where
  "default_self c =
     \<lparr>table_name = ''clientes'', column_nome = ''nome'', column_plano = ''plano_atual'',
      column_status = ''status_assinatura'', client = c\<rparr>"

definition assinante :: "string \<Rightarrow> string \<Rightarrow> string \<Rightarrow> Assinante" where
  "assinante n p st =
     \<lparr>nome_assinante = n, plano = p, status = st, data_criacao = ''01/01/2025''\<rparr>"

definition sample_rows :: "row list" where
  "sample_rows =
     [[(''id'', Some ''c1''), (''nome'', Some ''Ana Lima'')],
      [(''id'', Some ''c2''), (''nome'', Some ''Rui Melo'')],
      [(''id'', Some ''c3''), (''nome'', Some ''Bia Reis'')]]"

text \<open>The customers that \<open>get_all_clientes\<close> builds from \<open>sample_rows\<close>.\<close>

definition sample_clientes :: "ClienteObj list" where
  "sample_clientes =
     map obj_of
       [cliente ''c1'' ''Ana Lima'', cliente ''c2'' ''Rui Melo'', cliente ''c3'' ''Bia Reis'']"

definition sample_assinantes :: "Assinante list" where
  "sample_assinantes =
     [assinante ''ana lima '' ''Ouro'' ''Em dia'',
      assinante ''RUI MELO'' ''Prata'' ''Pendente'',
      assinante ''Ty'' ''Ouro'' ''Em dia'',
      assinante ''Bia Reis'' ''Ouro'' ''Cancelado'']"

text \<open>
  The same table when the name of the second customer is null: the row has the key
  \<^verbatim>\<open>nome\<close>, with the value \<^verbatim>\<open>None\<close>.
\<close>

definition null_name_rows :: "row list" where
  "null_name_rows =
     [[(''id'', Some ''c1''), (''nome'', Some ''Ana Lima'')],
      [(''id'', Some ''c2''), (''nome'', None)],
      [(''id'', Some ''c3''), (''nome'', Some ''Bia Reis'')]]"

section \<open>The name matcher: properties\<close>

subsection \<open>The loop\<close>

lemma scan_exact:
  "find (\<lambda>c. q = strip (lower (nome c))) cs = Some c \<Longrightarrow>
   scan_clientes ratio q cs bm br = Inl c"
  by (induction cs arbitrary: bm br) (auto simp: Let_def split: if_splits)

lemma scan_below:
  "\<forall>c\<in>set cs. q \<noteq> strip (lower (nome c)) \<and> ratio q (strip (lower (nome c))) \<le> br \<Longrightarrow>
   scan_clientes ratio q cs bm br = Inr (bm, br)"
  by (induction cs arbitrary: bm br) (auto simp: Let_def)

lemma scan_strict_prefix:
  "\<forall>c\<in>set pre. q \<noteq> strip (lower (nome c)) \<and> ratio q (strip (lower (nome c))) < m \<Longrightarrow>
   br < m \<Longrightarrow>
   \<exists>bm' br'. br' < m \<and>
      scan_clientes ratio q (pre @ rest) bm br = scan_clientes ratio q rest bm' br'"
proof (induction pre arbitrary: bm br)
  case Nil
  then show ?case by auto
next
  case (Cons a pre)
  then show ?case by (auto simp: Let_def)
qed

lemma scan_best:
  assumes "\<forall>x\<in>set pre. q \<noteq> strip (lower (nome x))
              \<and> ratio q (strip (lower (nome x))) < ratio q (strip (lower (nome c)))"
    and "q \<noteq> strip (lower (nome c))"
    and "\<forall>x\<in>set post. q \<noteq> strip (lower (nome x))
              \<and> ratio q (strip (lower (nome x))) \<le> ratio q (strip (lower (nome c)))"
    and "br < ratio q (strip (lower (nome c)))"
  shows "scan_clientes ratio q (pre @ c # post) bm br
           = Inr (Some c, ratio q (strip (lower (nome c))))"
proof -
  obtain bm' br' where b: "br' < ratio q (strip (lower (nome c)))"
    and s: "scan_clientes ratio q (pre @ c # post) bm br
              = scan_clientes ratio q (c # post) bm' br'"
    using scan_strict_prefix[of pre q ratio "ratio q (strip (lower (nome c)))" br "c # post" bm]
      assms(1) assms(4) by blast
  have "scan_clientes ratio q (c # post) bm' br'
          = scan_clientes ratio q post (Some c) (ratio q (strip (lower (nome c))))"
    using assms(2) b by (simp add: Let_def)
  also have "\<dots> = Inr (Some c, ratio q (strip (lower (nome c))))"
    using assms(3) by (rule scan_below)
  finally show ?thesis using s by simp
qed

lemma scan_all_below:
  "\<forall>x\<in>set cs. q \<noteq> strip (lower (nome x)) \<and> ratio q (strip (lower (nome x))) < t \<Longrightarrow>
   \<exists>bm' br'. scan_clientes ratio q cs bm br = Inr (bm', br')
      \<and> (br' < t \<or> (bm' = bm \<and> br' = br))"
proof (induction cs arbitrary: bm br)
  case Nil
  then show ?case by simp
next
  case (Cons a cs)
  let ?r = "ratio q (strip (lower (nome a)))"
  have rest: "\<forall>x\<in>set cs. q \<noteq> strip (lower (nome x)) \<and> ratio q (strip (lower (nome x))) < t"
    using Cons.prems by simp
  have a: "q \<noteq> strip (lower (nome a))" "?r < t" using Cons.prems by simp_all
  show ?case
  proof (cases "?r > br")
    case True
    obtain bm' br' where "scan_clientes ratio q cs (Some a) ?r = Inr (bm', br')"
      "br' < t \<or> (bm' = Some a \<and> br' = ?r)"
      using Cons.IH[OF rest, of "Some a" ?r] by blast
    then show ?thesis using a True by (auto simp: Let_def)
  next
    case False
    then show ?thesis using a Cons.IH[OF rest, of bm br] by (auto simp: Let_def)
  qed
qed

lemma find_best:
  assumes "\<forall>x\<in>set clientes. \<not> exact_match nome_busca x"
    and "clientes = pre @ c # post"
    and "\<forall>x\<in>set pre. score ratio nome_busca x < score ratio nome_busca c"
    and "\<forall>x\<in>set post. score ratio nome_busca x \<le> score ratio nome_busca c"
    and "0 < score ratio nome_busca c"
  shows "scan_clientes ratio (strip (lower nome_busca)) clientes None 0
           = Inr (Some c, score ratio nome_busca c)"
  unfolding assms(2) score_def
  by (rule scan_best) (use assms in \<open>auto simp: score_def exact_match_def\<close>)

subsection \<open>Exact match\<close>

text \<open>
  C1. When some candidate's name, lowered and stripped, equals the lowered and stripped
  query, \<open>find_cliente_by_name\<close> returns the first such candidate of the list: the
  candidate \<open>c\<close> with no exact match before it. The result is the same for every
  similarity function \<open>ratio\<close> and every \<open>threshold\<close>, so neither the ratios of the
  other candidates nor the threshold decide it.
\<close>

theorem exact_match_short_circuit:
  assumes "clientes = pre @ c # post"
    and "\<forall>x\<in>set pre. \<not> exact_match nome_busca x"
    and "exact_match nome_busca c"
  shows "find_cliente_by_name ratio nome_busca clientes threshold = Some c"
proof -
  have "find (\<lambda>x. strip (lower nome_busca) = strip (lower (nome x))) clientes = Some c"
    using assms by (induction pre arbitrary: clientes) (auto simp: exact_match_def)
  then show ?thesis
    by (simp add: find_cliente_by_name_def scan_exact)
qed

text \<open>
  The query \<^verbatim>\<open>Ana Lima\<close> against a near duplicate that passes the threshold, then two
  exact matches: the first exact match is returned.
\<close>

theorem exact_match_short_circuit_witness:
  "find_cliente_by_name sample_ratio ''Ana Lima''
     [cliente ''1'' ''Ana Limo'', cliente ''2'' '' ANA LIMA '', cliente ''3'' ''ana lima'']
     default_threshold = Some (cliente ''2'' '' ANA LIMA '')"
proof -
  have a: "\<forall>x\<in>set [cliente ''1'' ''Ana Limo'']. \<not> exact_match ''Ana Lima'' x"
    by code_simp
  have b: "exact_match ''Ana Lima'' (cliente ''2'' '' ANA LIMA '')"
    by code_simp
  show ?thesis
    using exact_match_short_circuit [of _ "[cliente ''1'' ''Ana Limo'']"
        "cliente ''2'' '' ANA LIMA ''" "[cliente ''3'' ''ana lima'']" "''Ana Lima''"
        sample_ratio default_threshold] a b
    by simp
qed

subsection \<open>Threshold\<close>

text \<open>
  C2, as the code has it. Let no candidate be an exact match. Call \<open>c\<close> the best
  candidate when every candidate before it scores strictly less and every candidate
  after it scores at most as much. If the best candidate's score is positive, the
  function returns it when its score is at least the threshold, and returns no match
  otherwise. If every candidate scores below the threshold, the function returns no
  match. And a match at threshold \<open>t\<close> is still the match at every lower threshold
  \<open>t'\<close>. The running best starts at ratio 0.0 with no candidate and is replaced only by
  a strictly greater ratio, so a best score of 0.0 selects nobody, whatever the
  threshold is.
\<close>

theorem threshold_gate:
  assumes "\<forall>x\<in>set clientes. \<not> exact_match nome_busca x"
  shows "(clientes = pre @ c # post
            \<and> (\<forall>x\<in>set pre. score ratio nome_busca x < score ratio nome_busca c)
            \<and> (\<forall>x\<in>set post. score ratio nome_busca x \<le> score ratio nome_busca c)
            \<and> 0 < score ratio nome_busca c
          \<longrightarrow> find_cliente_by_name ratio nome_busca clientes t
                = (if score ratio nome_busca c \<ge> t then Some c else None))
       \<and> ((\<forall>x\<in>set clientes. score ratio nome_busca x < t)
          \<longrightarrow> find_cliente_by_name ratio nome_busca clientes t = None)
       \<and> (t' \<le> t \<and> find_cliente_by_name ratio nome_busca clientes t = Some d
          \<longrightarrow> find_cliente_by_name ratio nome_busca clientes t' = Some d)
       \<and> ((\<forall>x\<in>set clientes. score ratio nome_busca x \<le> 0)
          \<longrightarrow> find_cliente_by_name ratio nome_busca clientes t = None)"
proof (intro conjI impI)
  assume h: "clientes = pre @ c # post
            \<and> (\<forall>x\<in>set pre. score ratio nome_busca x < score ratio nome_busca c)
            \<and> (\<forall>x\<in>set post. score ratio nome_busca x \<le> score ratio nome_busca c)
            \<and> 0 < score ratio nome_busca c"
  have "scan_clientes ratio (strip (lower nome_busca)) clientes None 0
          = Inr (Some c, score ratio nome_busca c)"
    using find_best[OF assms, of pre c post ratio] h by blast
  then show "find_cliente_by_name ratio nome_busca clientes t
                = (if score ratio nome_busca c \<ge> t then Some c else None)"
    by (simp add: find_cliente_by_name_def)
next
  assume h: "\<forall>x\<in>set clientes. score ratio nome_busca x < t"
  have "\<forall>x\<in>set clientes. strip (lower nome_busca) \<noteq> strip (lower (nome x))
          \<and> ratio (strip (lower nome_busca)) (strip (lower (nome x))) < t"
    using assms h by (auto simp: exact_match_def score_def)
  from scan_all_below[of clientes "strip (lower nome_busca)" ratio t None 0] this
  show "find_cliente_by_name ratio nome_busca clientes t = None"
    by (auto simp: find_cliente_by_name_def)
next
  assume "t' \<le> t \<and> find_cliente_by_name ratio nome_busca clientes t = Some d"
  then show "find_cliente_by_name ratio nome_busca clientes t' = Some d"
    by (auto simp: find_cliente_by_name_def Let_def split: sum.splits if_splits)
next
  assume h: "\<forall>x\<in>set clientes. score ratio nome_busca x \<le> 0"
  have "\<forall>x\<in>set clientes. strip (lower nome_busca) \<noteq> strip (lower (nome x))
          \<and> ratio (strip (lower nome_busca)) (strip (lower (nome x))) \<le> 0"
    using assms h by (auto simp: exact_match_def score_def)
  then have "scan_clientes ratio (strip (lower nome_busca)) clientes None 0 = Inr (None, 0)"
    by (rule scan_below)
  then show "find_cliente_by_name ratio nome_busca clientes t = None"
    by (simp add: find_cliente_by_name_def)
qed

text \<open>
  The query \<^verbatim>\<open>Ana Lima\<close> against an unrelated name and two near duplicates that
  score 0.875: a match at the default threshold and at 0.5, no match at 0.9. And the
  query \<^verbatim>\<open>abc\<close> against one candidate that scores 0.0: no match at threshold 0.
\<close>

theorem threshold_gate_witness:
  "find_cliente_by_name sample_ratio ''Ana Lima''
      [cliente ''1'' ''Ty'', cliente ''2'' ''Ana Limo'', cliente ''3'' ''Ana Limb'']
      default_threshold = Some (cliente ''2'' ''Ana Limo'')
   \<and> find_cliente_by_name sample_ratio ''Ana Lima''
      [cliente ''1'' ''Ty'', cliente ''2'' ''Ana Limo'', cliente ''3'' ''Ana Limb'']
      (1 / 2) = Some (cliente ''2'' ''Ana Limo'')
   \<and> find_cliente_by_name sample_ratio ''Ana Lima''
      [cliente ''1'' ''Ty'', cliente ''2'' ''Ana Limo'', cliente ''3'' ''Ana Limb'']
      (9 / 10) = None
   \<and> find_cliente_by_name sample_ratio ''abc'' [cliente ''1'' ''Ty''] 0 = None"
proof -
  let ?cs = "[cliente ''1'' ''Ty'', cliente ''2'' ''Ana Limo'', cliente ''3'' ''Ana Limb'']"
  have ne: "\<forall>x\<in>set ?cs. \<not> exact_match ''Ana Lima'' x"
    by code_simp
  have pre: "\<forall>x\<in>set [cliente ''1'' ''Ty''].
      score sample_ratio ''Ana Lima'' x
        < score sample_ratio ''Ana Lima'' (cliente ''2'' ''Ana Limo'')"
    by code_simp
  have post: "\<forall>x\<in>set [cliente ''3'' ''Ana Limb''].
      score sample_ratio ''Ana Lima'' x
        \<le> score sample_ratio ''Ana Lima'' (cliente ''2'' ''Ana Limo'')"
    by code_simp
  have pos: "0 < score sample_ratio ''Ana Lima'' (cliente ''2'' ''Ana Limo'')"
    by code_simp
  have ge: "score sample_ratio ''Ana Lima'' (cliente ''2'' ''Ana Limo'') \<ge> default_threshold"
    by code_simp
  have below: "\<forall>x\<in>set ?cs. score sample_ratio ''Ana Lima'' x < 9 / 10"
    by code_simp
  have le: "(1 / 2 :: real) \<le> default_threshold"
    by code_simp
  have a: "find_cliente_by_name sample_ratio ''Ana Lima'' ?cs default_threshold
             = Some (cliente ''2'' ''Ana Limo'')"
    using threshold_gate [OF ne, of "[cliente ''1'' ''Ty'']" "cliente ''2'' ''Ana Limo''"
        "[cliente ''3'' ''Ana Limb'']" sample_ratio default_threshold] pre post pos ge
    by simp
  have b: "find_cliente_by_name sample_ratio ''Ana Lima'' ?cs (1 / 2)
             = Some (cliente ''2'' ''Ana Limo'')"
    using threshold_gate [OF ne, of _ _ _ sample_ratio default_threshold "1 / 2"
        "cliente ''2'' ''Ana Limo''"] a le
    by blast
  have c: "find_cliente_by_name sample_ratio ''Ana Lima'' ?cs (9 / 10) = None"
    using threshold_gate [OF ne, of _ _ _ sample_ratio "9 / 10"] below by blast
  have ne0: "\<forall>x\<in>set [cliente ''1'' ''Ty'']. \<not> exact_match ''abc'' x"
    by code_simp
  have zero: "\<forall>x\<in>set [cliente ''1'' ''Ty'']. score sample_ratio ''abc'' x \<le> 0"
    by code_simp
  have d: "find_cliente_by_name sample_ratio ''abc'' [cliente ''1'' ''Ty''] 0 = None"
    using threshold_gate [OF ne0, of _ _ _ sample_ratio 0] zero by blast
  show ?thesis using a b c d by simp
qed

text \<open>
  The claim as the spec states it fails at threshold 0: the only candidate, \<^verbatim>\<open>xyz\<close>,
  is the best one, its ratio 0.0 against \<^verbatim>\<open>abc\<close> is at least the threshold, and the
  function returns no match.
\<close>

theorem threshold_gate_counterexample:
  "\<not> exact_match ''abc'' (cliente ''1'' ''xyz'')
   \<and> (0::real) \<le> score sample_ratio ''abc'' (cliente ''1'' ''xyz'')
   \<and> find_cliente_by_name sample_ratio ''abc'' [cliente ''1'' ''xyz''] 0 = None"
  by code_simp

subsection \<open>Ties\<close>

text \<open>
  C3, as the code has it. Let no candidate be an exact match, and let \<open>m\<close> be the
  greatest score among the candidates. If \<open>m\<close> is positive, the loop ends with the first
  candidate of the list that scores \<open>m\<close> as its running best, whatever other
  candidates score \<open>m\<close> after it, and \<open>find_cliente_by_name\<close> returns that candidate
  when \<open>m\<close> is at least the threshold. (When every score is 0.0 the running best is
  never replaced and nobody is selected.)
\<close>

theorem tie_keeps_first:
  assumes "\<forall>x\<in>set clientes. \<not> exact_match nome_busca x"
    and "clientes \<noteq> []"
    and "m = Max (score ratio nome_busca ` set clientes)"
  shows "(0 < m \<longrightarrow>
           scan_clientes ratio (strip (lower nome_busca)) clientes None 0
             = Inr (find (\<lambda>x. score ratio nome_busca x = m) clientes, m)
         \<and> find (\<lambda>x. score ratio nome_busca x = m) clientes \<noteq> None
         \<and> find_cliente_by_name ratio nome_busca clientes t
             = (if m \<ge> t then find (\<lambda>x. score ratio nome_busca x = m) clientes else None))
       \<and> (m \<le> 0 \<longrightarrow>
           scan_clientes ratio (strip (lower nome_busca)) clientes None 0 = Inr (None, 0)
         \<and> find_cliente_by_name ratio nome_busca clientes t = None)"
proof (intro conjI; rule impI)
  assume pos: "0 < m"
  let ?s = "score ratio nome_busca"
  have fin: "finite (?s ` set clientes)" "?s ` set clientes \<noteq> {}"
    using assms(2) by auto
  have "m \<in> ?s ` set clientes"
    unfolding assms(3) using fin by (rule Max_in)
  then have "\<exists>x\<in>set clientes. ?s x = m" by auto
  then obtain c where c: "find (\<lambda>x. ?s x = m) clientes = Some c"
    by (cases "find (\<lambda>x. ?s x = m) clientes") (auto simp: find_None_iff)
  then obtain i where i: "i < length clientes" "?s (clientes ! i) = m" "c = clientes ! i"
    "\<forall>j<i. ?s (clientes ! j) \<noteq> m"
    unfolding find_Some_iff by blast
  have le: "?s x \<le> m" if "x \<in> set clientes" for x
    unfolding assms(3) using that by (intro Max_ge) auto
  have parts: "clientes = take i clientes @ c # drop (Suc i) clientes"
    using i(1,3) by (simp add: id_take_nth_drop)
  have pre: "\<forall>x\<in>set (take i clientes). ?s x < ?s c"
  proof
    fix x assume x: "x \<in> set (take i clientes)"
    then obtain j where j: "j < i" "x = clientes ! j"
      using i(1) by (auto simp: in_set_conv_nth)
    have "x \<in> set clientes" using x by (rule in_set_takeD)
    then show "?s x < ?s c" using le[of x] i(2,3,4) j by force
  qed
  have post: "\<forall>x\<in>set (drop (Suc i) clientes). ?s x \<le> ?s c"
    using le i(2,3) by (auto dest: in_set_dropD)
  have sc: "scan_clientes ratio (strip (lower nome_busca)) clientes None 0 = Inr (Some c, ?s c)"
    using find_best[OF assms(1) parts pre post] pos i(2,3) by simp
  show "scan_clientes ratio (strip (lower nome_busca)) clientes None 0
             = Inr (find (\<lambda>x. score ratio nome_busca x = m) clientes, m)
         \<and> find (\<lambda>x. score ratio nome_busca x = m) clientes \<noteq> None
         \<and> find_cliente_by_name ratio nome_busca clientes t
             = (if m \<ge> t then find (\<lambda>x. score ratio nome_busca x = m) clientes else None)"
    using sc c i(2,3) by (simp add: find_cliente_by_name_def)
next
  assume z: "m \<le> 0"
  let ?s = "score ratio nome_busca"
  have le: "?s x \<le> 0" if "x \<in> set clientes" for x
  proof -
    have "?s x \<le> m" unfolding assms(3) using that by (intro Max_ge) auto
    then show ?thesis using z by simp
  qed
  have "\<forall>x\<in>set clientes. strip (lower nome_busca) \<noteq> strip (lower (nome x))
          \<and> ratio (strip (lower nome_busca)) (strip (lower (nome x))) \<le> 0"
    using assms(1) le by (auto simp: exact_match_def score_def)
  then have sc: "scan_clientes ratio (strip (lower nome_busca)) clientes None 0 = Inr (None, 0)"
    by (rule scan_below)
  show "scan_clientes ratio (strip (lower nome_busca)) clientes None 0 = Inr (None, 0)
         \<and> find_cliente_by_name ratio nome_busca clientes t = None"
    using sc by (simp add: find_cliente_by_name_def)
qed

text \<open>
  \<^verbatim>\<open>Ana Limo\<close> and \<^verbatim>\<open>Ana Limb\<close> both score 0.875 against \<^verbatim>\<open>Ana Lima\<close>; the
  one that comes first is returned. Two candidates that both score 0.0 against
  \<^verbatim>\<open>abc\<close>: neither is returned, even at threshold 0.
\<close>

theorem tie_keeps_first_witness:
  "find_cliente_by_name sample_ratio ''Ana Lima''
      [cliente ''1'' ''Ty'', cliente ''2'' ''Ana Limo'', cliente ''3'' ''Ana Limb'']
      default_threshold = Some (cliente ''2'' ''Ana Limo'')
   \<and> score sample_ratio ''Ana Lima'' (cliente ''3'' ''Ana Limb'')
       = score sample_ratio ''Ana Lima'' (cliente ''2'' ''Ana Limo'')
   \<and> find_cliente_by_name sample_ratio ''abc'' [cliente ''1'' ''Ty'', cliente ''2'' ''Ty'']
      0 = None"
proof -
  let ?cs = "[cliente ''1'' ''Ty'', cliente ''2'' ''Ana Limo'', cliente ''3'' ''Ana Limb'']"
  have ne: "\<forall>x\<in>set ?cs. \<not> exact_match ''Ana Lima'' x"
    by code_simp
  have nonempty: "?cs \<noteq> []" by simp
  have m: "7 / 8 = Max (score sample_ratio ''Ana Lima'' ` set ?cs)"
    by code_simp
  have pos: "(0::real) < 7 / 8" by simp
  have f: "find (\<lambda>x. score sample_ratio ''Ana Lima'' x = 7 / 8) ?cs
             = Some (cliente ''2'' ''Ana Limo'')"
    by code_simp
  have ge: "(7 / 8 :: real) \<ge> default_threshold"
    by code_simp
  have tie: "score sample_ratio ''Ana Lima'' (cliente ''3'' ''Ana Limb'')
       = score sample_ratio ''Ana Lima'' (cliente ''2'' ''Ana Limo'')"
    by code_simp
  have first: "find_cliente_by_name sample_ratio ''Ana Lima'' ?cs default_threshold
      = Some (cliente ''2'' ''Ana Limo'')"
    using tie_keeps_first [OF ne nonempty m, of default_threshold] pos f ge by simp
  let ?zs = "[cliente ''1'' ''Ty'', cliente ''2'' ''Ty'']"
  have ne0: "\<forall>x\<in>set ?zs. \<not> exact_match ''abc'' x"
    by code_simp
  have nonempty0: "?zs \<noteq> []" by simp
  have m0: "0 = Max (score sample_ratio ''abc'' ` set ?zs)"
    by code_simp
  have none: "find_cliente_by_name sample_ratio ''abc'' ?zs 0 = None"
    using tie_keeps_first [OF ne0 nonempty0 m0, of 0] by simp
  show ?thesis
    using first tie none by simp
qed

text \<open>
  The claim as the spec states it fails when the tie is at ratio 0.0: \<^verbatim>\<open>xyz\<close> and
  \<^verbatim>\<open>uvw\<close> both attain the greatest ratio against \<^verbatim>\<open>abc\<close>, the loop ends with no
  running best, and even at threshold 0 the first of them is not returned.
\<close>

theorem tie_keeps_first_counterexample:
  "\<not> exact_match ''abc'' (cliente ''1'' ''xyz'') \<and> \<not> exact_match ''abc'' (cliente ''2'' ''uvw'')
   \<and> score sample_ratio ''abc'' (cliente ''1'' ''xyz'')
       = score sample_ratio ''abc'' (cliente ''2'' ''uvw'')
   \<and> Max (score sample_ratio ''abc'' ` set [cliente ''1'' ''xyz'', cliente ''2'' ''uvw''])
        = score sample_ratio ''abc'' (cliente ''1'' ''xyz'')
   \<and> scan_clientes sample_ratio (strip (lower ''abc''))
        [cliente ''1'' ''xyz'', cliente ''2'' ''uvw''] None 0 = Inr (None, 0)
   \<and> find_cliente_by_name sample_ratio ''abc''
        [cliente ''1'' ''xyz'', cliente ''2'' ''uvw''] 0 = None"
  by code_simp

section \<open>The status normalizer: properties\<close>

text \<open>
  C8. \<open>normalize_status\<close> is a function of its argument alone, defined on every string:
  the four labels of the table map to \<^verbatim>\<open>ativo\<close>, \<^verbatim>\<open>inadimplente\<close>,
  \<^verbatim>\<open>cancelado\<close> and \<^verbatim>\<open>pendente\<close>, and every other string, a case variant of a label
  included, maps to \<^verbatim>\<open>desconhecido\<close>.
\<close>

theorem normalize_status_table:
  "normalize_status ''Em dia'' = ''ativo''
   \<and> normalize_status ''Pagamento recusado'' = ''inadimplente''
   \<and> normalize_status ''Cancelado'' = ''cancelado''
   \<and> normalize_status ''Pendente'' = ''pendente''
   \<and> (s \<notin> {''Em dia'', ''Pagamento recusado'', ''Cancelado'', ''Pendente''}
        \<longrightarrow> normalize_status s = ''desconhecido'')"
  by (simp add: normalize_status_def status_map_def)

theorem normalize_status_table_witness:
  "normalize_status ''Foo'' = ''desconhecido'' \<and> normalize_status ''em dia'' = ''desconhecido''
   \<and> normalize_status ''EM DIA'' = ''desconhecido'' \<and> normalize_status [] = ''desconhecido''"
  using normalize_status_table [of "''Foo''"] normalize_status_table [of "''em dia''"]
    normalize_status_table [of "''EM DIA''"] normalize_status_table [of "[]"]
  by simp

section \<open>The reconciliation pass: properties\<close>

subsection \<open>The objects of the run time\<close>

text \<open>
  On customers whose fields have their declared types, \<open>find_cliente_by_name_obj\<close>
  raises nothing and returns what \<open>find_cliente_by_name\<close> returns: the statements
  about the matcher above are statements about the lookup of the pass.
\<close>

lemma scan_objs_typed:
  "scan_objs ratio q (map obj_of cs) (map_option obj_of bm) br =
     (case scan_clientes ratio q cs bm br of
        Inl c \<Rightarrow> Inr (Inl (obj_of c))
      | Inr (m, b) \<Rightarrow> Inr (Inr (map_option obj_of m, b)))"
proof (induction cs arbitrary: bm br)
  case Nil
  then show ?case by simp
next
  case (Cons c cs)
  have n: "obj_nome (obj_of c) = Some (nome c)" by (simp add: obj_of_def)
  show ?case
    using Cons.IH[of "Some c" "ratio q (strip (lower (nome c)))"] Cons.IH[of bm br]
    by (simp add: n Let_def)
qed

lemma find_cliente_by_name_obj_typed:
  "find_cliente_by_name_obj ratio nome_busca (map obj_of cs) threshold =
     Inr (map_option obj_of (find_cliente_by_name ratio nome_busca cs threshold))"
  using scan_objs_typed[of ratio "strip (lower nome_busca)" cs None 0]
  by (simp add: find_cliente_by_name_obj_def find_cliente_by_name_def Let_def
      split: sum.splits prod.splits)

text \<open>
  The lookup raises nothing when every customer has a name, whatever the name looked
  for; and \<^verbatim>\<open>AttributeError\<close> is the one exception it can raise.
\<close>

lemma scan_objs_names:
  "names_present cs \<Longrightarrow> \<not> isl (scan_objs ratio q cs bm br)"
  by (induction cs arbitrary: bm br) (auto simp: names_present_def Let_def split: if_splits)

lemma scan_objs_error:
  "scan_objs ratio q cs bm br = Inl e \<Longrightarrow> e = AttributeError"
  by (induction cs arbitrary: bm br) (auto simp: Let_def split: option.splits if_splits)

lemma matched_error: "matched ratio cs a = Inl e \<Longrightarrow> e = AttributeError"
  using scan_objs_error[of ratio "strip (lower (nome_assinante a))" cs None 0 e]
  by (auto simp: matched_def find_cliente_by_name_obj_def Let_def split: sum.splits prod.splits)

lemma names_present_lookups_ok: "names_present cs \<Longrightarrow> lookups_ok ratio cs as"
proof -
  assume n: "names_present cs"
  have "\<not> isl (matched ratio cs a)" for a
    using scan_objs_names[OF n, of ratio "strip (lower (nome_assinante a))" None 0]
    by (auto simp: matched_def find_cliente_by_name_obj_def Let_def split: sum.splits prod.splits)
  then show ?thesis by (simp add: lookups_ok_def list_all_iff)
qed

subsection \<open>One record, then the loop\<close>

lemma update_cliente_log:
  "\<exists>ok s'. update_cliente environ self i p st ts s = (ok, s')
      \<and> calls s' = calls s @ [Update (table_name self) (build_update_data environ self p st ts) i ok]"
  by (auto simp: update_cliente_def Let_def split: prod.splits option.splits)

lemma sync_step_error:
  "matched ratio cs a = Inl e \<Longrightarrow>
   sync_step ratio environ self cs dry a (sts, s) = (Inl e, s)"
  by (simp add: sync_step_def matched_def)

lemma sync_step_unmatched:
  "matched ratio cs a = Inr None \<Longrightarrow>
   sync_step ratio environ self cs dry a (sts, s) =
     (Inr (sts\<lparr>nao_encontrados := nao_encontrados sts + 1,
          nao_encontrados_lista := nao_encontrados_lista sts @ [nome_assinante a]\<rparr>), s)"
  by (simp add: sync_step_def matched_def)

lemma sync_step_dry:
  "matched ratio cs a = Inr (Some c) \<Longrightarrow>
   sync_step ratio environ self cs True a (sts, s) =
     (Inr (sts\<lparr>encontrados := encontrados sts + 1, atualizados := atualizados sts + 1\<rparr>), s)"
  by (simp add: sync_step_def matched_def)

lemma sync_step_live:
  "matched ratio cs a = Inr (Some c) \<Longrightarrow>
   \<exists>ok s'. sync_step ratio environ self cs False a (sts, s) =
       (Inr (if ok then sts\<lparr>encontrados := encontrados sts + 1, atualizados := atualizados sts + 1\<rparr>
        else sts\<lparr>encontrados := encontrados sts + 1, erros := erros sts + 1\<rparr>), s')
     \<and> calls s' = calls s @ [Update (table_name self)
            (build_update_data environ self (plano a) (status a) True) (obj_id c) ok]"
  using update_cliente_log[of environ self "obj_id c" "plano a" "status a" True s]
  by (auto simp: sync_step_def matched_def Let_def)

lemma sync_step_returns:
  "matched ratio cs a = Inr m \<Longrightarrow>
   \<exists>sts' s'. sync_step ratio environ self cs dry a (sts, s) = (Inr sts', s')"
  by (auto simp: sync_step_def matched_def Let_def split: option.splits prod.splits)

lemma tally_0: "tally sts 0 0 0 [] = sts"
  by (simp add: tally_def)

lemma tally_tally:
  "tally (tally sts f1 o1 e1 m1) f2 o2 e2 m2 = tally sts (f1 + f2) (o1 + o2) (e1 + e2) (m1 @ m2)"
  by (simp add: tally_def)

lemma lookups_ok_Cons:
  "lookups_ok ratio cs (a # as) \<longleftrightarrow> \<not> isl (matched ratio cs a) \<and> lookups_ok ratio cs as"
  by (simp add: lookups_ok_def)

lemma sync_loop_dry:
  "lookups_ok ratio cs as \<Longrightarrow>
   sync_loop ratio environ self cs True as (sts, s) =
     (Inr (tally sts (count_matched ratio cs as) (count_matched ratio cs as) 0
        (unmatched_names ratio cs as)), s)"
proof (induction as arbitrary: sts)
  case Nil
  then show ?case by (simp add: count_matched_def unmatched_names_def tally_0)
next
  case (Cons a as)
  have ok: "lookups_ok ratio cs as" and na: "\<not> isl (matched ratio cs a)"
    using Cons.prems by (simp_all add: lookups_ok_Cons)
  show ?case
  proof (cases "matched ratio cs a")
    case (Inl e)
    then show ?thesis using na by simp
  next
    case (Inr m)
    show ?thesis
    proof (cases m)
      case None
      have "sync_step ratio environ self cs True a (sts, s)
              = (Inr (tally sts 0 0 0 [nome_assinante a]), s)"
        using None Inr by (simp add: sync_step_unmatched tally_def)
      then show ?thesis
        using None Inr
        by (simp add: Cons.IH[OF ok] tally_tally count_matched_def unmatched_names_def
            has_match_def no_match_def)
    next
      case (Some c)
      have "sync_step ratio environ self cs True a (sts, s) = (Inr (tally sts 1 1 0 []), s)"
        using Some Inr by (simp add: sync_step_dry tally_def)
      then show ?thesis
        using Some Inr
        by (simp add: Cons.IH[OF ok] tally_tally count_matched_def unmatched_names_def
            has_match_def no_match_def)
    qed
  qed
qed

lemma sync_loop_dry_state:
  "snd (sync_loop ratio environ self cs True as (sts, s)) = s"
proof (induction as arbitrary: sts)
  case Nil
  then show ?case by simp
next
  case (Cons a as)
  show ?case
  proof (cases "matched ratio cs a")
    case (Inl e)
    then show ?thesis by (simp add: sync_step_error)
  next
    case (Inr m)
    then show ?thesis
      using Cons.IH by (cases m) (simp_all add: sync_step_unmatched sync_step_dry)
  qed
qed

lemma sync_loop_raises:
  "\<not> lookups_ok ratio cs as \<Longrightarrow>
   \<exists>s'. sync_loop ratio environ self cs dry as (sts, s) = (Inl AttributeError, s')"
proof (induction as arbitrary: sts s)
  case Nil
  then show ?case by (simp add: lookups_ok_def)
next
  case (Cons a as)
  show ?case
  proof (cases "matched ratio cs a")
    case (Inl e)
    have "e = AttributeError" by (rule matched_error[OF Inl])
    then show ?thesis using Inl by (simp add: sync_step_error)
  next
    case (Inr m)
    have n: "\<not> lookups_ok ratio cs as"
      using Cons.prems Inr by (simp add: lookups_ok_Cons)
    obtain sts' s' where st: "sync_step ratio environ self cs dry a (sts, s) = (Inr sts', s')"
      using sync_step_returns[OF Inr] by blast
    show ?thesis
      using Cons.IH[OF n, of sts' s'] st by simp
  qed
qed

lemma sync_loop_live:
  "lookups_ok ratio cs as \<Longrightarrow>
   \<exists>trace s'. sync_loop ratio environ self cs False as (sts, s) =
       (Inr (tally sts (count_matched ratio cs as) (length (filter call_ok trace))
          (length (filter (\<lambda>c. \<not> call_ok c) trace)) (unmatched_names ratio cs as)), s')
     \<and> calls s' = calls s @ trace
     \<and> map call_request trace = requests ratio environ self cs as"
proof (induction as arbitrary: sts s)
  case Nil
  then show ?case by (simp add: count_matched_def unmatched_names_def tally_0)
next
  case (Cons a as)
  have ok: "lookups_ok ratio cs as" and na: "\<not> isl (matched ratio cs a)"
    using Cons.prems by (simp_all add: lookups_ok_Cons)
  show ?case
  proof (cases "matched ratio cs a")
    case (Inl e)
    then show ?thesis using na by simp
  next
    case (Inr m)
    show ?thesis
    proof (cases m)
      case None
      have mt: "matched ratio cs a = Inr None" using Inr None by simp
      have st: "sync_step ratio environ self cs False a (sts, s)
                  = (Inr (tally sts 0 0 0 [nome_assinante a]), s)"
        using mt by (simp add: sync_step_unmatched tally_def)
      obtain trace s' where
        l: "sync_loop ratio environ self cs False as (tally sts 0 0 0 [nome_assinante a], s) =
         (Inr (tally (tally sts 0 0 0 [nome_assinante a]) (count_matched ratio cs as)
            (length (filter call_ok trace))
            (length (filter (\<lambda>c. \<not> call_ok c) trace)) (unmatched_names ratio cs as)), s')"
        and c: "calls s' = calls s @ trace"
        and r: "map call_request trace = requests ratio environ self cs as"
        using Cons.IH[OF ok, of "tally sts 0 0 0 [nome_assinante a]" s] by (elim exE conjE)
      have "sync_loop ratio environ self cs False (a # as) (sts, s) =
         (Inr (tally sts (count_matched ratio cs (a # as)) (length (filter call_ok trace))
            (length (filter (\<lambda>c. \<not> call_ok c) trace))
            (unmatched_names ratio cs (a # as))), s')"
        using mt st l
        by (simp add: tally_tally count_matched_def unmatched_names_def has_match_def
            no_match_def)
      moreover have "map call_request trace = requests ratio environ self cs (a # as)"
        using r mt by simp
      ultimately show ?thesis using c by blast
    next
      case (Some c)
      have mt: "matched ratio cs a = Inr (Some c)" using Inr Some by simp
      obtain ok s1 where st: "sync_step ratio environ self cs False a (sts, s) =
         (Inr (if ok then sts\<lparr>encontrados := encontrados sts + 1, atualizados := atualizados sts + 1\<rparr>
          else sts\<lparr>encontrados := encontrados sts + 1, erros := erros sts + 1\<rparr>), s1)"
        and c1: "calls s1 = calls s @ [Update (table_name self)
              (build_update_data environ self (plano a) (status a) True) (obj_id c) ok]"
        using sync_step_live[OF mt] by blast
      let ?u = "Update (table_name self)
              (build_update_data environ self (plano a) (status a) True) (obj_id c) ok"
      let ?t = "tally sts 1 (length (filter call_ok [?u]))
            (length (filter (\<lambda>c. \<not> call_ok c) [?u])) []"
      have st': "sync_step ratio environ self cs False a (sts, s) = (Inr ?t, s1)"
        using st by (simp add: tally_def)
      obtain trace s' where
        l: "sync_loop ratio environ self cs False as (?t, s1) =
         (Inr (tally ?t
            (count_matched ratio cs as) (length (filter call_ok trace))
            (length (filter (\<lambda>c. \<not> call_ok c) trace)) (unmatched_names ratio cs as)), s')"
        and c2: "calls s' = calls s1 @ trace"
        and r: "map call_request trace = requests ratio environ self cs as"
        using Cons.IH[OF ok, of ?t s1] by (elim exE conjE)
      have "sync_loop ratio environ self cs False (a # as) (sts, s) =
         (Inr (tally sts (count_matched ratio cs (a # as)) (length (filter call_ok (?u # trace)))
            (length (filter (\<lambda>c. \<not> call_ok c) (?u # trace)))
            (unmatched_names ratio cs (a # as))), s')"
        using mt st' l
        by (simp add: tally_tally count_matched_def unmatched_names_def has_match_def
            no_match_def)
      moreover have "calls s' = calls s @ (?u # trace)" using c1 c2 by simp
      moreover have "map call_request (?u # trace) = requests ratio environ self cs (a # as)"
        using r mt by (simp add: request_for_def)
      ultimately show ?thesis by blast
    qed
  qed
qed

lemma get_all_clientes_log:
  "get_all_clientes self s = (Inr cs, s1) \<Longrightarrow>
   calls s1 = calls s @ [Select (table_name self) True]"
  by (auto simp: get_all_clientes_def split: prod.splits sum.splits)

lemma new_calls_append: "calls s' = calls s @ tr \<Longrightarrow> new_calls s s' = tr"
  by (simp add: new_calls_def)

lemma length_requests:
  "length (requests ratio environ self cs as) = count_matched ratio cs as"
  by (induction as) (auto simp: count_matched_def has_match_def split: option.splits sum.splits)

lemma sync_assinantes_loop:
  "get_all_clientes self s = (Inr cs, s1) \<Longrightarrow>
   sync_assinantes ratio environ self as dry s =
     sync_loop ratio environ self cs dry as (initial_stats as cs, s1)"
  by (simp add: sync_assinantes_def initial_stats_def)

lemma sync_dry:
  assumes "get_all_clientes self s = (Inr cs, s1)" and "lookups_ok ratio cs as"
  shows "sync_assinantes ratio environ self as True s =
           (Inr (tally (initial_stats as cs) (count_matched ratio cs as)
                   (count_matched ratio cs as) 0 (unmatched_names ratio cs as)), s1)"
  using sync_loop_dry[OF assms(2)] by (simp add: sync_assinantes_loop[OF assms(1)])

lemma sync_dry_state:
  assumes "get_all_clientes self s = (Inr cs, s1)"
  shows "snd (sync_assinantes ratio environ self as True s) = s1"
  by (simp add: sync_assinantes_loop[OF assms] sync_loop_dry_state)

lemma sync_live:
  assumes "get_all_clientes self s = (Inr cs, s1)" and "lookups_ok ratio cs as"
  shows "\<exists>trace s2. sync_assinantes ratio environ self as False s =
           (Inr (tally (initial_stats as cs) (count_matched ratio cs as)
                   (length (filter call_ok trace))
                   (length (filter (\<lambda>c. \<not> call_ok c) trace))
                   (unmatched_names ratio cs as)), s2)
         \<and> calls s2 = calls s1 @ trace
         \<and> map call_request trace = requests ratio environ self cs as"
  unfolding sync_assinantes_loop[OF assms(1)]
  by (rule sync_loop_live[OF assms(2)])

lemma sync_raises:
  assumes "get_all_clientes self s = (Inr cs, s1)" and "\<not> lookups_ok ratio cs as"
  shows "\<exists>s2. sync_assinantes ratio environ self as dry s = (Inl AttributeError, s2)"
  unfolding sync_assinantes_loop[OF assms(1)]
  by (rule sync_loop_raises[OF assms(2)])

lemma sync_returns:
  assumes "sync_assinantes ratio environ self as dry s = (Inr sts, s2)"
  shows "\<exists>cs s1. get_all_clientes self s = (Inr cs, s1) \<and> lookups_ok ratio cs as"
proof -
  obtain r s1 where g: "get_all_clientes self s = (r, s1)"
    by (cases "get_all_clientes self s")
  show ?thesis
  proof (cases r)
    case (Inl e)
    then show ?thesis using assms g by (simp add: sync_assinantes_def)
  next
    case (Inr cs)
    have g': "get_all_clientes self s = (Inr cs, s1)" using g Inr by simp
    have "lookups_ok ratio cs as"
    proof (rule ccontr)
      assume "\<not> lookups_ok ratio cs as"
      from sync_raises[OF g' this, of environ dry] show False using assms by auto
    qed
    then show ?thesis using g' by blast
  qed
qed

lemma trace_counts:
  assumes "map call_request trace = requests ratio environ self cs as"
  shows "length trace = count_matched ratio cs as"
    and "length (filter call_ok trace) + length (filter (\<lambda>c. \<not> call_ok c) trace)
           = count_matched ratio cs as"
proof -
  show l: "length trace = count_matched ratio cs as"
    using assms length_requests[of ratio environ self cs as] by (metis length_map)
  show "length (filter call_ok trace) + length (filter (\<lambda>c. \<not> call_ok c) trace)
          = count_matched ratio cs as"
    using l sum_length_filter_compl[of call_ok trace] by simp
qed

lemma counts_total:
  "lookups_ok ratio cs as \<Longrightarrow>
   count_matched ratio cs as + length (unmatched_names ratio cs as) = length as"
  by (induction as)
     (auto simp: lookups_ok_Cons count_matched_def unmatched_names_def has_match_def
        no_match_def split: sum.splits option.splits)

subsection \<open>The examples\<close>

lemma sample_names: "names_present sample_clientes"
  by (simp add: names_present_def sample_clientes_def obj_of_def)

lemma sample_fetch:
  "get_all_clientes (default_self (scripted_client sample_rows)) \<lparr>world = w, calls = cl\<rparr>
    = (Inr sample_clientes, \<lparr>world = w, calls = cl @ [Select ''clientes'' True]\<rparr>)"
  by (simp add: get_all_clientes_def default_self_def scripted_client_def sample_rows_def
      row_to_cliente_def row_get_def sample_clientes_def cliente_def obj_of_def)

lemma null_name_fetch:
  "get_all_clientes (default_self (scripted_client null_name_rows)) \<lparr>world = w, calls = cl\<rparr>
    = (Inr [obj_of (cliente ''c1'' ''Ana Lima''),
            \<lparr>obj_id = Some ''c2'', obj_nome = None, obj_telefone = None,
             obj_plano_atual = None, obj_status_assinatura = None\<rparr>,
            obj_of (cliente ''c3'' ''Bia Reis'')],
       \<lparr>world = w, calls = cl @ [Select ''clientes'' True]\<rparr>)"
  by (simp add: get_all_clientes_def default_self_def scripted_client_def null_name_rows_def
      row_to_cliente_def row_get_def cliente_def obj_of_def)

subsection \<open>Dry run\<close>

text \<open>
  C4, as the code has it. Let the fetch of the customers succeed. A dry run leaves the
  database in the state the fetch left it in and makes no call but that fetch: no update
  is sent, whether the run returns or raises. When no lookup raises, which is so when
  every fetched customer has a name, the dry run returns its statistics; its counter
  \<^verbatim>\<open>atualizados\<close> is the number of scraped records that have a match, as is
  \<^verbatim>\<open>encontrados\<close>; a live run over the same input returns statistics too, and they
  are those of the dry run exactly when every update it sent returned: an update that
  raises moves one unit from \<^verbatim>\<open>atualizados\<close> to \<^verbatim>\<open>erros\<close>.
\<close>

theorem dry_run_no_updates:
  assumes "get_all_clientes self s = (Inr cs, s1)"
  shows "snd (sync_assinantes ratio environ self as True s) = s1
       \<and> new_calls s s1 = [Select (table_name self) True]
       \<and> filter is_update (new_calls s s1) = []
       \<and> (lookups_ok ratio cs as \<longrightarrow>
           (\<exists>sts_dry sts_live s2.
               sync_assinantes ratio environ self as True s = (Inr sts_dry, s1)
             \<and> atualizados sts_dry = int (count_matched ratio cs as)
             \<and> encontrados sts_dry = int (count_matched ratio cs as)
             \<and> sync_assinantes ratio environ self as False s = (Inr sts_live, s2)
             \<and> (sts_live = sts_dry) = list_all call_ok (new_calls s s2)))"
proof -
  let ?m = "count_matched ratio cs as"
  let ?dry = "tally (initial_stats as cs) ?m ?m 0 (unmatched_names ratio cs as)"
  have c1: "calls s1 = calls s @ [Select (table_name self) True]"
    by (rule get_all_clientes_log[OF assms])
  have n1: "new_calls s s1 = [Select (table_name self) True]"
    by (rule new_calls_append[OF c1])
  have st: "snd (sync_assinantes ratio environ self as True s) = s1"
    by (rule sync_dry_state[OF assms])
  have nu: "filter is_update (new_calls s s1) = []"
    unfolding n1 by simp
  have main: "\<exists>sts_dry sts_live s2.
               sync_assinantes ratio environ self as True s = (Inr sts_dry, s1)
             \<and> atualizados sts_dry = int (count_matched ratio cs as)
             \<and> encontrados sts_dry = int (count_matched ratio cs as)
             \<and> sync_assinantes ratio environ self as False s = (Inr sts_live, s2)
             \<and> (sts_live = sts_dry) = list_all call_ok (new_calls s s2)"
    if ok: "lookups_ok ratio cs as"
  proof -
    have d: "sync_assinantes ratio environ self as True s = (Inr ?dry, s1)"
      by (rule sync_dry[OF assms ok])
    obtain trace s2 where
      l: "sync_assinantes ratio environ self as False s =
             (Inr (tally (initial_stats as cs) ?m (length (filter call_ok trace))
                     (length (filter (\<lambda>c. \<not> call_ok c) trace))
                     (unmatched_names ratio cs as)), s2)"
      and c2: "calls s2 = calls s1 @ trace"
      and r: "map call_request trace = requests ratio environ self cs as"
      using sync_live[OF assms ok, of environ] by (elim exE conjE)
    let ?live = "tally (initial_stats as cs) ?m (length (filter call_ok trace))
                     (length (filter (\<lambda>c. \<not> call_ok c) trace)) (unmatched_names ratio cs as)"
    have n2: "new_calls s s2 = Select (table_name self) True # trace"
      using c1 c2 by (simp add: new_calls_def)
    have sum: "length (filter call_ok trace) + length (filter (\<lambda>c. \<not> call_ok c) trace) = ?m"
      by (rule trace_counts(2)[OF r])
    have "(length (filter (\<lambda>c. \<not> call_ok c) trace) = 0) = list_all call_ok trace"
      by (auto simp: list_all_iff filter_empty_conv)
    then have eq: "(?live = ?dry) = list_all call_ok (new_calls s s2)"
      using sum n2 by (auto simp: tally_def initial_stats_def)
    have a: "atualizados ?dry = int ?m" by (simp add: tally_def initial_stats_def)
    have e: "encontrados ?dry = int ?m" by (simp add: tally_def initial_stats_def)
    show ?thesis
      apply (rule exI[of _ ?dry], rule exI[of _ ?live], rule exI[of _ s2])
      apply (intro conjI)
          apply (rule d)
         apply (rule a)
        apply (rule e)
       apply (rule l)
      apply (rule eq)
      done
  qed
  show ?thesis
    apply (intro conjI impI)
       apply (rule st)
      apply (rule n1)
     apply (rule nu)
    apply (erule main)
    done
qed

text \<open>
  Four scraped records, three of them matched, against a client whose updates all
  return: the dry run and the live run report the same statistics.
\<close>

theorem dry_run_no_updates_witness:
  "sync_assinantes sample_ratio Map.empty (default_self (scripted_client sample_rows))
      sample_assinantes True \<lparr>world = [], calls = []\<rparr>
     = (Inr \<lparr>total_cashbarber = 4, total_supabase = 3, encontrados = 3, atualizados = 3,
             nao_encontrados = 1, erros = 0, nao_encontrados_lista = [''Ty'']\<rparr>,
        \<lparr>world = [], calls = [Select ''clientes'' True]\<rparr>)
   \<and> fst (sync_assinantes sample_ratio Map.empty (default_self (scripted_client sample_rows))
      sample_assinantes False \<lparr>world = [], calls = []\<rparr>)
     = Inr \<lparr>total_cashbarber = 4, total_supabase = 3, encontrados = 3, atualizados = 3,
             nao_encontrados = 1, erros = 0, nao_encontrados_lista = [''Ty'']\<rparr>"
proof -
  define self where "self = default_self (scripted_client sample_rows)"
  define s where "s = \<lparr>world = ([]::bool list), calls = []\<rparr>"
  define s1 where "s1 = \<lparr>world = ([]::bool list), calls = [Select ''clientes'' True]\<rparr>"
  define expected where "expected = \<lparr>total_cashbarber = 4, total_supabase = 3, encontrados = 3,
    atualizados = 3, nao_encontrados = 1, erros = 0, nao_encontrados_lista = [''Ty'']\<rparr>"
  have h: "get_all_clientes self s = (Inr sample_clientes, s1)"
    unfolding self_def s_def s1_def using sample_fetch[of "[]" "[]"] by simp
  have ok: "lookups_ok sample_ratio sample_clientes sample_assinantes"
    by (rule names_present_lookups_ok[OF sample_names])
  have dry: "sync_assinantes sample_ratio Map.empty self sample_assinantes True s
     = (Inr expected, s1)"
    unfolding self_def s_def s1_def expected_def by code_simp
  have allok: "list_all call_ok (new_calls s
      (snd (sync_assinantes sample_ratio Map.empty self sample_assinantes False s)))"
    unfolding self_def s_def by code_simp
  obtain sts_dry sts_live s2 where
    d: "sync_assinantes sample_ratio Map.empty self sample_assinantes True s = (Inr sts_dry, s1)"
    and l: "sync_assinantes sample_ratio Map.empty self sample_assinantes False s
              = (Inr sts_live, s2)"
    and eq: "(sts_live = sts_dry) = list_all call_ok (new_calls s s2)"
    using dry_run_no_updates [OF h, of sample_ratio Map.empty sample_assinantes] ok
    by (elim conjE exE impE)
  have "sts_dry = expected" using d dry by simp
  moreover have "sts_live = sts_dry" using eq allok l by simp
  ultimately have "fst (sync_assinantes sample_ratio Map.empty self sample_assinantes False s)
      = Inr expected"
    using l by simp
  then show ?thesis
    using dry unfolding self_def s_def s1_def expected_def by simp
qed

text \<open>
  The claim as the spec states it fails when an update raises: one matched record,
  same input and same match, and the dry run reports one update and no error while the
  live run reports no update and one error.
\<close>

theorem dry_run_no_updates_counterexample:
  "fst (sync_assinantes sample_ratio Map.empty (default_self (scripted_client sample_rows))
      [assinante ''Ana Lima'' ''Ouro'' ''Em dia''] True \<lparr>world = [False], calls = []\<rparr>)
     = Inr \<lparr>total_cashbarber = 1, total_supabase = 3, encontrados = 1, atualizados = 1,
             nao_encontrados = 0, erros = 0, nao_encontrados_lista = []\<rparr>
   \<and> fst (sync_assinantes sample_ratio Map.empty (default_self (scripted_client sample_rows))
      [assinante ''Ana Lima'' ''Ouro'' ''Em dia''] False \<lparr>world = [False], calls = []\<rparr>)
     = Inr \<lparr>total_cashbarber = 1, total_supabase = 3, encontrados = 1, atualizados = 0,
             nao_encontrados = 0, erros = 1, nao_encontrados_lista = []\<rparr>"
  by code_simp

subsection \<open>Failed updates\<close>

text \<open>
  C5. Let the fetch of the customers succeed. When no lookup raises, which is so when
  every fetched customer has a name and does not depend on the client, a live run
  returns its statistics, and the updates it sent are the requests for the matched
  records, one each and in order, whatever the outcome of the earlier ones: a failure
  does not stop the loop. \<^verbatim>\<open>erros\<close> is the number of updates that raised
  (\<open>update_cliente\<close> returned \<^verbatim>\<open>False\<close>), \<^verbatim>\<open>atualizados\<close> the number that
  returned, and every scraped record is counted as found or not found. In particular
  three matched records with one failed update give \<^verbatim>\<open>atualizados = 2\<close> and
  \<^verbatim>\<open>erros = 1\<close>. The run ends without statistics only when a lookup raises, and
  then with the \<^verbatim>\<open>AttributeError\<close> of that lookup: no outcome of an update ends
  it.
\<close>

theorem update_failure_counts_as_error:
  assumes "get_all_clientes self s = (Inr cs, s1)"
  shows "(lookups_ok ratio cs as \<longrightarrow>
           (\<exists>sts s2 trace.
               sync_assinantes ratio environ self as False s = (Inr sts, s2)
             \<and> calls s2 = calls s1 @ trace
             \<and> map call_request trace = requests ratio environ self cs as
             \<and> erros sts = int (length (filter (\<lambda>c. \<not> call_ok c) trace))
             \<and> atualizados sts = int (length (filter call_ok trace))
             \<and> encontrados sts = int (length trace)
             \<and> encontrados sts + nao_encontrados sts = int (length as)
             \<and> (length trace = 3 \<and> length (filter (\<lambda>c. \<not> call_ok c) trace) = 1
                  \<longrightarrow> atualizados sts = 2 \<and> erros sts = 1)))
       \<and> (\<not> lookups_ok ratio cs as \<longrightarrow>
           (\<exists>s2. sync_assinantes ratio environ self as False s = (Inl AttributeError, s2)))"
proof (intro conjI impI)
  assume ok: "lookups_ok ratio cs as"
  let ?m = "count_matched ratio cs as"
  obtain trace s2 where
    l: "sync_assinantes ratio environ self as False s =
           (Inr (tally (initial_stats as cs) ?m (length (filter call_ok trace))
                   (length (filter (\<lambda>c. \<not> call_ok c) trace))
                   (unmatched_names ratio cs as)), s2)"
    and c2: "calls s2 = calls s1 @ trace"
    and r: "map call_request trace = requests ratio environ self cs as"
    using sync_live[OF assms ok, of environ] by (elim exE conjE)
  let ?sts = "tally (initial_stats as cs) ?m (length (filter call_ok trace))
                   (length (filter (\<lambda>c. \<not> call_ok c) trace))
                   (unmatched_names ratio cs as)"
  have len: "length trace = ?m" by (rule trace_counts(1)[OF r])
  have sum: "length (filter call_ok trace) + length (filter (\<lambda>c. \<not> call_ok c) trace) = ?m"
    by (rule trace_counts(2)[OF r])
  have tot: "?m + length (unmatched_names ratio cs as) = length as"
    by (rule counts_total[OF ok])
  have e: "erros ?sts = int (length (filter (\<lambda>c. \<not> call_ok c) trace))"
    by (simp add: tally_def initial_stats_def)
  have a: "atualizados ?sts = int (length (filter call_ok trace))"
    by (simp add: tally_def initial_stats_def)
  have f: "encontrados ?sts = int (length trace)"
    using len by (simp add: tally_def initial_stats_def)
  have t: "encontrados ?sts + nao_encontrados ?sts = int (length as)"
    using tot by (simp add: tally_def initial_stats_def)
  have three: "atualizados ?sts = 2 \<and> erros ?sts = 1"
    if "length trace = 3 \<and> length (filter (\<lambda>c. \<not> call_ok c) trace) = 1"
    using that sum len by (simp add: tally_def initial_stats_def)
  show "\<exists>sts s2 trace.
               sync_assinantes ratio environ self as False s = (Inr sts, s2)
             \<and> calls s2 = calls s1 @ trace
             \<and> map call_request trace = requests ratio environ self cs as
             \<and> erros sts = int (length (filter (\<lambda>c. \<not> call_ok c) trace))
             \<and> atualizados sts = int (length (filter call_ok trace))
             \<and> encontrados sts = int (length trace)
             \<and> encontrados sts + nao_encontrados sts = int (length as)
             \<and> (length trace = 3 \<and> length (filter (\<lambda>c. \<not> call_ok c) trace) = 1
                  \<longrightarrow> atualizados sts = 2 \<and> erros sts = 1)"
    apply (rule exI[of _ ?sts], rule exI[of _ s2], rule exI[of _ trace])
    apply (intro conjI)
           apply (rule l)
          apply (rule c2)
         apply (rule r)
        apply (rule e)
       apply (rule a)
      apply (rule f)
     apply (rule t)
    apply (rule impI)
    apply (erule three)
    done
next
  assume "\<not> lookups_ok ratio cs as"
  then show "\<exists>s2. sync_assinantes ratio environ self as False s = (Inl AttributeError, s2)"
    by (rule sync_raises[OF assms])
qed

text \<open>
  Three matched records; the second update raises, the third is still sent. And a table
  in which the second customer has no name: the first scraped record is matched exactly
  by the first customer and its update raises, which the loop counts; the lookup of the
  second scraped record then reaches the customer without a name and raises.
\<close>

theorem update_failure_counts_as_error_witness:
  "sync_assinantes sample_ratio Map.empty (default_self (scripted_client sample_rows))
      sample_assinantes False \<lparr>world = [True, False, True], calls = []\<rparr>
   = (Inr \<lparr>total_cashbarber = 4, total_supabase = 3, encontrados = 3, atualizados = 2,
           nao_encontrados = 1, erros = 1, nao_encontrados_lista = [''Ty'']\<rparr>,
      \<lparr>world = [],
       calls = [Select ''clientes'' True,
                Update ''clientes'' [(''plano_atual'', ''Ouro''), (''status_assinatura'', ''Em dia''),
                   (''ultima_sincronizacao'', ''now()'')] (Some ''c1'') True,
                Update ''clientes'' [(''plano_atual'', ''Prata''), (''status_assinatura'', ''Pendente''),
                   (''ultima_sincronizacao'', ''now()'')] (Some ''c2'') False,
                Update ''clientes'' [(''plano_atual'', ''Ouro''), (''status_assinatura'', ''Cancelado''),
                   (''ultima_sincronizacao'', ''now()'')] (Some ''c3'') True]\<rparr>)
   \<and> fst (sync_assinantes sample_ratio Map.empty (default_self (scripted_client null_name_rows))
        [assinante ''Ana Lima'' ''Ouro'' ''Em dia'', assinante ''Ty'' ''Ouro'' ''Em dia'']
        False \<lparr>world = [False], calls = []\<rparr>)
     = Inl AttributeError"
proof -
  define self where "self = default_self (scripted_client sample_rows)"
  define s where "s = \<lparr>world = [True, False, True], calls = []\<rparr>"
  define s1 where "s1 = \<lparr>world = [True, False, True], calls = [Select ''clientes'' True]\<rparr>"
  define final where "final = \<lparr>world = ([]::bool list),
       calls = [Select ''clientes'' True,
                Update ''clientes'' [(''plano_atual'', ''Ouro''), (''status_assinatura'', ''Em dia''),
                   (''ultima_sincronizacao'', ''now()'')] (Some ''c1'') True,
                Update ''clientes'' [(''plano_atual'', ''Prata''), (''status_assinatura'', ''Pendente''),
                   (''ultima_sincronizacao'', ''now()'')] (Some ''c2'') False,
                Update ''clientes'' [(''plano_atual'', ''Ouro''), (''status_assinatura'', ''Cancelado''),
                   (''ultima_sincronizacao'', ''now()'')] (Some ''c3'') True]\<rparr>"
  define expected where "expected = \<lparr>total_cashbarber = 4, total_supabase = 3, encontrados = 3,
    atualizados = 2, nao_encontrados = 1, erros = 1, nao_encontrados_lista = [''Ty'']\<rparr>"
  have h: "get_all_clientes self s = (Inr sample_clientes, s1)"
    unfolding self_def s_def s1_def using sample_fetch[of "[True, False, True]" "[]"] by simp
  have ok: "lookups_ok sample_ratio sample_clientes sample_assinantes"
    by (rule names_present_lookups_ok[OF sample_names])
  have fin: "snd (sync_assinantes sample_ratio Map.empty self sample_assinantes False s) = final"
    unfolding self_def s_def final_def by code_simp
  obtain sts s2 trace where
    r: "sync_assinantes sample_ratio Map.empty self sample_assinantes False s = (Inr sts, s2)"
    and c: "calls s2 = calls s1 @ trace"
    and e: "erros sts = int (length (filter (\<lambda>c. \<not> call_ok c) trace))"
    and a: "atualizados sts = int (length (filter call_ok trace))"
    and f: "encontrados sts = int (length trace)"
    and t: "encontrados sts + nao_encontrados sts = int (length sample_assinantes)"
    using mp[OF conjunct1[OF update_failure_counts_as_error
                [OF h, of sample_ratio sample_assinantes Map.empty]] ok]
    by (elim conjE exE)
  have s2: "s2 = final" using r fin by simp
  have tr: "trace = tl (calls final)"
    using c s2 by (simp add: s1_def final_def)
  have tc: "total_cashbarber sts = 4 \<and> total_supabase sts = 3
      \<and> nao_encontrados_lista sts = [''Ty'']"
  proof -
    have "total_cashbarber (projr (fst (sync_assinantes sample_ratio Map.empty self
             sample_assinantes False s))) = 4
        \<and> total_supabase (projr (fst (sync_assinantes sample_ratio Map.empty self
             sample_assinantes False s))) = 3
        \<and> nao_encontrados_lista (projr (fst (sync_assinantes sample_ratio Map.empty self
             sample_assinantes False s))) = [''Ty'']"
      unfolding self_def s_def by code_simp
    then show ?thesis using r by simp
  qed
  have "erros sts = 1" using e tr by (simp add: final_def)
  moreover have "atualizados sts = 2" using a tr by (simp add: final_def)
  moreover have "encontrados sts = 3" using f tr by (simp add: final_def)
  moreover have "nao_encontrados sts = 1"
    using t \<open>encontrados sts = 3\<close> by (simp add: sample_assinantes_def)
  ultimately have "sts = expected"
    using tc by (simp add: expected_def)
  then have first: "sync_assinantes sample_ratio Map.empty self sample_assinantes False s
     = (Inr expected, final)"
    using r s2 by simp
  define self' where "self' = default_self (scripted_client null_name_rows)"
  define as' where
    "as' = [assinante ''Ana Lima'' ''Ouro'' ''Em dia'', assinante ''Ty'' ''Ouro'' ''Em dia'']"
  define cs' where "cs' = [obj_of (cliente ''c1'' ''Ana Lima''),
            \<lparr>obj_id = Some ''c2'', obj_nome = None, obj_telefone = None,
             obj_plano_atual = None, obj_status_assinatura = None\<rparr>,
            obj_of (cliente ''c3'' ''Bia Reis'')]"
  define u where "u = \<lparr>world = [False], calls = []\<rparr>"
  define u1 where "u1 = \<lparr>world = [False], calls = [Select ''clientes'' True]\<rparr>"
  have h': "get_all_clientes self' u = (Inr cs', u1)"
    unfolding self'_def u_def u1_def cs'_def using null_name_fetch[of "[False]" "[]"] by simp
  have nok: "\<not> lookups_ok sample_ratio cs' as'"
    unfolding cs'_def as'_def by code_simp
  obtain u2 where "sync_assinantes sample_ratio Map.empty self' as' False u
      = (Inl AttributeError, u2)"
    using mp[OF conjunct2[OF update_failure_counts_as_error
                [OF h', of sample_ratio as' Map.empty]] nok]
    by (elim exE)
  then have second: "fst (sync_assinantes sample_ratio Map.empty self' as' False u)
      = Inl AttributeError" by simp
  show ?thesis
    using first second
    unfolding self_def s_def final_def expected_def self'_def as'_def u_def
    by simp
qed

subsection \<open>Empty input\<close>

text \<open>
  C6, as the code has it. On an empty scraped sequence, when the fetch of the customers
  succeeds, the pass returns statistics whose counters are all zero except
  \<^verbatim>\<open>total_supabase\<close>, which is the number of customers fetched; the list of
  unmatched names is empty; and the only database call is that fetch (no update).
\<close>

theorem empty_pass:
  assumes "get_all_clientes self s = (Inr cs, s1)"
  shows "sync_assinantes ratio environ self [] dry_run s =
           (Inr \<lparr>total_cashbarber = 0, total_supabase = int (length cs), encontrados = 0,
                 atualizados = 0, nao_encontrados = 0, erros = 0,
                 nao_encontrados_lista = []\<rparr>, s1)
       \<and> new_calls s s1 = [Select (table_name self) True]"
  using assms get_all_clientes_log[OF assms]
  by (simp add: sync_assinantes_def new_calls_def)

theorem empty_pass_witness:
  "sync_assinantes sample_ratio Map.empty (default_self (scripted_client sample_rows)) [] False
      \<lparr>world = [], calls = []\<rparr>
     = (Inr \<lparr>total_cashbarber = 0, total_supabase = 3, encontrados = 0,
             atualizados = 0, nao_encontrados = 0, erros = 0, nao_encontrados_lista = []\<rparr>,
        \<lparr>world = [], calls = [Select ''clientes'' True]\<rparr>)"
proof -
  have h: "get_all_clientes (default_self (scripted_client sample_rows)) \<lparr>world = [], calls = []\<rparr>
    = (Inr sample_clientes, \<lparr>world = [], calls = [Select ''clientes'' True]\<rparr>)"
    using sample_fetch[of "[]" "[]"] by simp
  have n: "int (length sample_clientes) = 3" by (simp add: sample_clientes_def)
  show ?thesis
    using empty_pass [OF h, of sample_ratio Map.empty False] n by simp
qed

text \<open>
  The claim as the spec states it fails on a database of three customers:
  \<^verbatim>\<open>total_supabase\<close> is 3, and one call, the fetch, has been made.
\<close>

theorem empty_pass_counterexample:
  "total_supabase (projr (fst (sync_assinantes sample_ratio Map.empty
       (default_self (scripted_client sample_rows)) [] True \<lparr>world = [], calls = []\<rparr>))) = 3
   \<and> calls (snd (sync_assinantes sample_ratio Map.empty
       (default_self (scripted_client sample_rows)) [] True \<lparr>world = [], calls = []\<rparr>))
       = [Select ''clientes'' True]"
  by code_simp

subsection \<open>Running twice\<close>

lemma rerun_dry:
  assumes "get_all_clientes self s = (Inr cs, s1)"
    and "get_all_clientes self t = (Inr cs, t1)"
    and "lookups_ok ratio cs as"
  shows "\<exists>sts. sync_assinantes ratio environ self as True s = (Inr sts, s1)
         \<and> sync_assinantes ratio environ self as True t = (Inr sts, t1)
         \<and> new_calls s s1 = [Select (table_name self) True]
         \<and> new_calls t t1 = [Select (table_name self) True]"
proof -
  have cs1: "calls s1 = calls s @ [Select (table_name self) True]"
    by (rule get_all_clientes_log[OF assms(1)])
  have ct1: "calls t1 = calls t @ [Select (table_name self) True]"
    by (rule get_all_clientes_log[OF assms(2)])
  have ns: "new_calls s s1 = [Select (table_name self) True]"
    by (rule new_calls_append[OF cs1])
  have nt: "new_calls t t1 = [Select (table_name self) True]"
    by (rule new_calls_append[OF ct1])
  show ?thesis
    apply (rule exI)
    apply (intro conjI)
       apply (rule sync_dry[OF assms(1) assms(3)])
      apply (rule sync_dry[OF assms(2) assms(3)])
     apply (rule ns)
    apply (rule nt)
    done
qed

lemma rerun_live:
  assumes "get_all_clientes self s = (Inr cs, s1)"
    and "get_all_clientes self t = (Inr cs, t1)"
    and "lookups_ok ratio cs as"
  shows "\<exists>tr s2 tr' t2.
           sync_assinantes ratio environ self as False s =
             (Inr (tally (initial_stats as cs) (count_matched ratio cs as)
                     (length (filter call_ok tr))
                     (length (filter (\<lambda>c. \<not> call_ok c) tr))
                     (unmatched_names ratio cs as)), s2)
         \<and> sync_assinantes ratio environ self as False t =
             (Inr (tally (initial_stats as cs) (count_matched ratio cs as)
                     (length (filter call_ok tr'))
                     (length (filter (\<lambda>c. \<not> call_ok c) tr'))
                     (unmatched_names ratio cs as)), t2)
         \<and> new_calls s s2 = Select (table_name self) True # tr
         \<and> new_calls t t2 = Select (table_name self) True # tr'
         \<and> map call_request tr = map call_request tr'"
proof -
  have cs1: "calls s1 = calls s @ [Select (table_name self) True]"
    by (rule get_all_clientes_log[OF assms(1)])
  have ct1: "calls t1 = calls t @ [Select (table_name self) True]"
    by (rule get_all_clientes_log[OF assms(2)])
  obtain tr s2 where
    ls: "sync_assinantes ratio environ self as False s =
           (Inr (tally (initial_stats as cs) (count_matched ratio cs as)
                   (length (filter call_ok tr))
                   (length (filter (\<lambda>c. \<not> call_ok c) tr))
                   (unmatched_names ratio cs as)), s2)"
    and cs2: "calls s2 = calls s1 @ tr"
    and rs: "map call_request tr = requests ratio environ self cs as"
    using sync_live[OF assms(1) assms(3), of environ] by (elim exE conjE)
  obtain tr' t2 where
    lt: "sync_assinantes ratio environ self as False t =
           (Inr (tally (initial_stats as cs) (count_matched ratio cs as)
                   (length (filter call_ok tr'))
                   (length (filter (\<lambda>c. \<not> call_ok c) tr'))
                   (unmatched_names ratio cs as)), t2)"
    and ct2: "calls t2 = calls t1 @ tr'"
    and rt: "map call_request tr' = requests ratio environ self cs as"
    using sync_live[OF assms(2) assms(3), of environ] by (elim exE conjE)
  have ns: "new_calls s s2 = Select (table_name self) True # tr"
    using cs1 cs2 by (simp add: new_calls_def)
  have nt: "new_calls t t2 = Select (table_name self) True # tr'"
    using ct1 ct2 by (simp add: new_calls_def)
  have rq: "map call_request tr = map call_request tr'"
    using rs rt by simp
  show ?thesis
    apply (rule exI[of _ tr], rule exI[of _ s2], rule exI[of _ tr'], rule exI[of _ t2])
    apply (intro conjI)
        apply (rule ls)
       apply (rule lt)
      apply (rule ns)
     apply (rule nt)
    apply (rule rq)
    done
qed

lemma count_ok_cong:
  "map call_ok tr = map call_ok tr' \<Longrightarrow>
     length (filter call_ok tr) = length (filter call_ok tr')
   \<and> length (filter (\<lambda>c. \<not> call_ok c) tr) = length (filter (\<lambda>c. \<not> call_ok c) tr')"
proof -
  assume a: "map call_ok tr = map call_ok tr'"
  have f: "length (filter call_ok xs) = length (filter id (map call_ok xs))"
    for xs :: "db_call list"
    by (induction xs) auto
  have g: "length (filter (\<lambda>c. \<not> call_ok c) xs) = length (filter Not (map call_ok xs))"
    for xs :: "db_call list"
    by (induction xs) auto
  show ?thesis unfolding f g a by simp
qed

text \<open>
  C9, as the code has it. Take two runs of the pass over the same scraped sequence, from
  any two states of the world (the second may be the state the first run left), whose
  fetches return the same customers, and let no lookup raise, which is so when every
  fetched customer has a name. Both return statistics; they send the same requests in
  the same order; they agree on the matches, that is on \<^verbatim>\<open>encontrados\<close>,
  \<^verbatim>\<open>nao_encontrados\<close> and the list of unmatched names; and their statistics are
  identical provided each call has the same outcome in both runs, which is always so in
  a dry run.
\<close>

theorem rerun_same_decisions_and_writes:
  assumes "get_all_clientes self s = (Inr cs, s1)"
    and "get_all_clientes self t = (Inr cs, t1)"
    and "lookups_ok ratio cs as"
  shows "\<exists>sts_s s2 sts_t t2.
           sync_assinantes ratio environ self as dry_run s = (Inr sts_s, s2)
         \<and> sync_assinantes ratio environ self as dry_run t = (Inr sts_t, t2)
         \<and> map call_request (new_calls s s2) = map call_request (new_calls t t2)
         \<and> encontrados sts_s = encontrados sts_t
         \<and> nao_encontrados sts_s = nao_encontrados sts_t
         \<and> nao_encontrados_lista sts_s = nao_encontrados_lista sts_t
         \<and> (map call_ok (new_calls s s2) = map call_ok (new_calls t t2) \<longrightarrow> sts_s = sts_t)
         \<and> (dry_run \<longrightarrow> sts_s = sts_t)"
proof (cases dry_run)
  case True
  obtain sts where
    d1: "sync_assinantes ratio environ self as True s = (Inr sts, s1)"
    and d2: "sync_assinantes ratio environ self as True t = (Inr sts, t1)"
    and n1: "new_calls s s1 = [Select (table_name self) True]"
    and n2: "new_calls t t1 = [Select (table_name self) True]"
    using rerun_dry[OF assms, of environ] by (elim exE conjE)
  have d1': "sync_assinantes ratio environ self as dry_run s = (Inr sts, s1)"
    using d1 True by simp
  have d2': "sync_assinantes ratio environ self as dry_run t = (Inr sts, t1)"
    using d2 True by simp
  have rq: "map call_request (new_calls s s1) = map call_request (new_calls t t1)"
    unfolding n1 n2 by (rule refl)
  show ?thesis
    apply (rule exI[of _ sts], rule exI[of _ s1], rule exI[of _ sts], rule exI[of _ t1])
    apply (intro conjI impI)
           apply (rule d1')
          apply (rule d2')
         apply (rule rq)
        apply (rule refl)+
    done
next
  case False
  let ?m = "count_matched ratio cs as"
  let ?u = "unmatched_names ratio cs as"
  obtain tr s2 tr' t2 where
    ls: "sync_assinantes ratio environ self as False s =
           (Inr (tally (initial_stats as cs) ?m (length (filter call_ok tr))
                   (length (filter (\<lambda>c. \<not> call_ok c) tr)) ?u), s2)"
    and lt: "sync_assinantes ratio environ self as False t =
           (Inr (tally (initial_stats as cs) ?m (length (filter call_ok tr'))
                   (length (filter (\<lambda>c. \<not> call_ok c) tr')) ?u), t2)"
    and ns: "new_calls s s2 = Select (table_name self) True # tr"
    and nt: "new_calls t t2 = Select (table_name self) True # tr'"
    and rq: "map call_request tr = map call_request tr'"
    using rerun_live[OF assms, of environ] by (elim exE conjE)
  let ?A = "tally (initial_stats as cs) ?m (length (filter call_ok tr))
                   (length (filter (\<lambda>c. \<not> call_ok c) tr)) ?u"
  let ?B = "tally (initial_stats as cs) ?m (length (filter call_ok tr'))
                   (length (filter (\<lambda>c. \<not> call_ok c) tr')) ?u"
  have ls': "sync_assinantes ratio environ self as dry_run s = (Inr ?A, s2)"
    using ls False by simp
  have lt': "sync_assinantes ratio environ self as dry_run t = (Inr ?B, t2)"
    using lt False by simp
  have rq': "map call_request (new_calls s s2) = map call_request (new_calls t t2)"
    unfolding ns nt using rq by simp
  have f1: "encontrados ?A = encontrados ?B" by (simp add: tally_def)
  have f2: "nao_encontrados ?A = nao_encontrados ?B" by (simp add: tally_def)
  have f3: "nao_encontrados_lista ?A = nao_encontrados_lista ?B" by (simp add: tally_def)
  have eq: "?A = ?B" if "map call_ok (new_calls s s2) = map call_ok (new_calls t t2)"
  proof -
    have "map call_ok tr = map call_ok tr'" using that unfolding ns nt by simp
    from count_ok_cong[OF this] show ?thesis by simp
  qed
  show ?thesis
    apply (rule exI[of _ ?A], rule exI[of _ s2], rule exI[of _ ?B], rule exI[of _ t2])
    apply (intro conjI impI)
           apply (rule ls')
          apply (rule lt')
         apply (rule rq')
        apply (rule f1)
       apply (rule f2)
      apply (rule f3)
     apply (erule eq)
    apply (simp add: False)
    done
qed

text \<open>
  A live run and a second live run from the state the first one left, against a client
  whose updates return.
\<close>

theorem rerun_same_decisions_and_writes_witness:
  "fst (sync_assinantes sample_ratio Map.empty (default_self (scripted_client sample_rows))
      [assinante ''Ana Lima'' ''Ouro'' ''Em dia''] False \<lparr>world = [], calls = []\<rparr>)
   = fst (sync_assinantes sample_ratio Map.empty (default_self (scripted_client sample_rows))
      [assinante ''Ana Lima'' ''Ouro'' ''Em dia''] False
      \<lparr>world = [],
       calls = [Select ''clientes'' True,
               Update ''clientes'' [(''plano_atual'', ''Ouro''), (''status_assinatura'', ''Em dia''),
                  (''ultima_sincronizacao'', ''now()'')] (Some ''c1'') True]\<rparr>)"
proof -
  define self where "self = default_self (scripted_client sample_rows)"
  define as where "as = [assinante ''Ana Lima'' ''Ouro'' ''Em dia'']"
  define u where "u = Update ''clientes'' [(''plano_atual'', ''Ouro''),
      (''status_assinatura'', ''Em dia''), (''ultima_sincronizacao'', ''now()'')] (Some ''c1'') True"
  define s where "s = \<lparr>world = ([]::bool list), calls = []\<rparr>"
  define s1 where "s1 = \<lparr>world = ([]::bool list), calls = [Select ''clientes'' True]\<rparr>"
  define t where "t = \<lparr>world = ([]::bool list), calls = [Select ''clientes'' True, u]\<rparr>"
  define t1 where "t1 = \<lparr>world = ([]::bool list),
      calls = [Select ''clientes'' True, u, Select ''clientes'' True]\<rparr>"
  define t2 where "t2 = \<lparr>world = ([]::bool list),
      calls = [Select ''clientes'' True, u, Select ''clientes'' True, u]\<rparr>"
  have e1: "snd (sync_assinantes sample_ratio Map.empty self as False s) = t"
    unfolding self_def as_def s_def t_def u_def by code_simp
  have e2: "snd (sync_assinantes sample_ratio Map.empty self as False t) = t2"
    unfolding self_def as_def t_def t2_def u_def by code_simp
  have h1: "get_all_clientes self s = (Inr sample_clientes, s1)"
    unfolding self_def s_def s1_def using sample_fetch[of "[]" "[]"] by simp
  have h2: "get_all_clientes self t = (Inr sample_clientes, t1)"
    unfolding self_def t_def t1_def using sample_fetch[of "[]" "[Select ''clientes'' True, u]"]
    by simp
  have ok: "lookups_ok sample_ratio sample_clientes as"
    by (rule names_present_lookups_ok[OF sample_names])
  obtain a s2 b t2' where
    r1: "sync_assinantes sample_ratio Map.empty self as False s = (Inr a, s2)"
    and r2: "sync_assinantes sample_ratio Map.empty self as False t = (Inr b, t2')"
    and imp: "map call_ok (new_calls s s2) = map call_ok (new_calls t t2') \<longrightarrow> a = b"
    using rerun_same_decisions_and_writes [OF h1 h2 ok, of Map.empty False]
    by (elim exE conjE)
  have s2: "s2 = t" using r1 e1 by simp
  have t2: "t2' = t2" using r2 e2 by simp
  have "map call_ok (new_calls s t) = map call_ok (new_calls t t2)"
    by (simp add: new_calls_def s_def t_def t2_def u_def)
  then have "a = b" using imp s2 t2 by simp
  then have "fst (sync_assinantes sample_ratio Map.empty self as False s)
           = fst (sync_assinantes sample_ratio Map.empty self as False t)"
    using r1 r2 by simp
  then show ?thesis
    unfolding self_def as_def s_def t_def u_def .
qed

text \<open>
  The claim as the spec states it fails when an update raises in one run and returns in
  the other: same scraped record, same customers fetched, and the first run reports one
  error, the second one update.
\<close>

theorem rerun_same_decisions_and_writes_counterexample:
  "fst (sync_assinantes sample_ratio Map.empty (default_self (scripted_client sample_rows))
      [assinante ''Ana Lima'' ''Ouro'' ''Em dia''] False \<lparr>world = [False], calls = []\<rparr>)
     = Inr \<lparr>total_cashbarber = 1, total_supabase = 3, encontrados = 1, atualizados = 0,
             nao_encontrados = 0, erros = 1, nao_encontrados_lista = []\<rparr>
   \<and> fst (sync_assinantes sample_ratio Map.empty (default_self (scripted_client sample_rows))
      [assinante ''Ana Lima'' ''Ouro'' ''Em dia''] False
      (snd (sync_assinantes sample_ratio Map.empty (default_self (scripted_client sample_rows))
        [assinante ''Ana Lima'' ''Ouro'' ''Em dia''] False \<lparr>world = [False], calls = []\<rparr>)))
     = Inr \<lparr>total_cashbarber = 1, total_supabase = 3, encontrados = 1, atualizados = 1,
             nao_encontrados = 0, erros = 0, nao_encontrados_lista = []\<rparr>
   \<and> fst (get_all_clientes (default_self (scripted_client sample_rows))
        \<lparr>world = [False], calls = []\<rparr>)
     = fst (get_all_clientes (default_self (scripted_client sample_rows))
        (snd (sync_assinantes sample_ratio Map.empty (default_self (scripted_client sample_rows))
        [assinante ''Ana Lima'' ''Ouro'' ''Em dia''] False \<lparr>world = [False], calls = []\<rparr>)))"
  by code_simp

subsection \<open>Accounting\<close>

text \<open>
  C10. Whenever the pass returns statistics, \<^verbatim>\<open>total_cashbarber\<close> is the number
  of scraped records, \<^verbatim>\<open>encontrados + nao_encontrados = total_cashbarber\<close>, the
  list of unmatched names has \<^verbatim>\<open>nao_encontrados\<close> elements, and
  \<^verbatim>\<open>atualizados = encontrados\<close> with \<^verbatim>\<open>erros = 0\<close> in a dry run,
  \<^verbatim>\<open>atualizados + erros = encontrados\<close> in a live run. And the pass does return
  statistics when the fetch of the customers succeeds and every fetched customer has a
  name.
\<close>

theorem stats_accounting:
  "(sync_assinantes ratio environ self as dry_run s = (Inr sts, s2) \<longrightarrow>
        total_cashbarber sts = int (length as)
      \<and> encontrados sts + nao_encontrados sts = total_cashbarber sts
      \<and> int (length (nao_encontrados_lista sts)) = nao_encontrados sts
      \<and> (if dry_run then atualizados sts = encontrados sts \<and> erros sts = 0
          else atualizados sts + erros sts = encontrados sts))
   \<and> (get_all_clientes self s = (Inr cs, s1) \<and> names_present cs \<longrightarrow>
        (\<exists>sts' s2'. sync_assinantes ratio environ self as dry_run s = (Inr sts', s2')))"
proof (intro conjI impI)
  assume ret: "sync_assinantes ratio environ self as dry_run s = (Inr sts, s2)"
  obtain cs' s1' where g: "get_all_clientes self s = (Inr cs', s1')"
    and ok: "lookups_ok ratio cs' as"
    using sync_returns[OF ret] by (elim exE conjE)
  have tot: "count_matched ratio cs' as + length (unmatched_names ratio cs' as) = length as"
    by (rule counts_total[OF ok])
  have inv: "total_cashbarber sts = int (length as)
      \<and> encontrados sts + nao_encontrados sts = total_cashbarber sts
      \<and> int (length (nao_encontrados_lista sts)) = nao_encontrados sts
      \<and> (if dry_run then atualizados sts = encontrados sts \<and> erros sts = 0
          else atualizados sts + erros sts = encontrados sts)"
  proof (cases dry_run)
    case True
    have "sync_assinantes ratio environ self as dry_run s =
             (Inr (tally (initial_stats as cs') (count_matched ratio cs' as)
                     (count_matched ratio cs' as) 0 (unmatched_names ratio cs' as)), s1')"
      using True sync_dry[OF g ok, of environ] by simp
    then have "sts = tally (initial_stats as cs') (count_matched ratio cs' as)
                     (count_matched ratio cs' as) 0 (unmatched_names ratio cs' as)"
      using ret by simp
    then show ?thesis
      using True tot by (simp add: tally_def initial_stats_def)
  next
    case False
    obtain trace t2 where r: "sync_assinantes ratio environ self as False s =
             (Inr (tally (initial_stats as cs') (count_matched ratio cs' as)
                     (length (filter call_ok trace))
                     (length (filter (\<lambda>c. \<not> call_ok c) trace))
                     (unmatched_names ratio cs' as)), t2)"
      and m: "map call_request trace = requests ratio environ self cs' as"
      using sync_live[OF g ok, of environ] by (elim exE conjE)
    have "sts = tally (initial_stats as cs') (count_matched ratio cs' as)
                     (length (filter call_ok trace))
                     (length (filter (\<lambda>c. \<not> call_ok c) trace))
                     (unmatched_names ratio cs' as)"
      using False r ret by simp
    then show ?thesis
      using False tot trace_counts(2)[OF m]
      by (simp add: tally_def initial_stats_def)
  qed
  show "total_cashbarber sts = int (length as)" using inv by (rule conjunct1)
  show "encontrados sts + nao_encontrados sts = total_cashbarber sts"
    using inv by (elim conjE)
  show "int (length (nao_encontrados_lista sts)) = nao_encontrados sts"
    using inv by (elim conjE)
  show "if dry_run then atualizados sts = encontrados sts \<and> erros sts = 0
          else atualizados sts + erros sts = encontrados sts"
    using inv by (elim conjE)
next
  assume a: "get_all_clientes self s = (Inr cs, s1) \<and> names_present cs"
  have g: "get_all_clientes self s = (Inr cs, s1)" using a by (rule conjunct1)
  have n: "names_present cs" using a by (rule conjunct2)
  have ok: "lookups_ok ratio cs as" by (rule names_present_lookups_ok[OF n])
  show "\<exists>sts' s2'. sync_assinantes ratio environ self as dry_run s = (Inr sts', s2')"
  proof (cases dry_run)
    case True
    have "sync_assinantes ratio environ self as dry_run s =
             (Inr (tally (initial_stats as cs) (count_matched ratio cs as)
                     (count_matched ratio cs as) 0 (unmatched_names ratio cs as)), s1)"
      using True sync_dry[OF g ok, of environ] by simp
    then show ?thesis by (intro exI)
  next
    case False
    obtain trace t2 where r: "sync_assinantes ratio environ self as False s =
             (Inr (tally (initial_stats as cs) (count_matched ratio cs as)
                     (length (filter call_ok trace))
                     (length (filter (\<lambda>c. \<not> call_ok c) trace))
                     (unmatched_names ratio cs as)), t2)"
      using sync_live[OF g ok, of environ] by (elim exE conjE)
    have "sync_assinantes ratio environ self as dry_run s =
             (Inr (tally (initial_stats as cs) (count_matched ratio cs as)
                     (length (filter call_ok trace))
                     (length (filter (\<lambda>c. \<not> call_ok c) trace))
                     (unmatched_names ratio cs as)), t2)"
      using False r by simp
    then show ?thesis by (intro exI)
  qed
qed

text \<open>
  Three matched records of four in a live run whose first update raises, and the dry
  run over the same input.
\<close>

theorem stats_accounting_witness:
  "fst (sync_assinantes sample_ratio Map.empty (default_self (scripted_client sample_rows))
      sample_assinantes False \<lparr>world = [False, True], calls = []\<rparr>)
   = Inr \<lparr>total_cashbarber = 4, total_supabase = 3, encontrados = 3, atualizados = 2,
           nao_encontrados = 1, erros = 1, nao_encontrados_lista = [''Ty'']\<rparr>
   \<and> 3 + 1 = total_cashbarber \<lparr>total_cashbarber = 4, total_supabase = 3, encontrados = 3,
           atualizados = 2, nao_encontrados = 1, erros = 1, nao_encontrados_lista = [''Ty'']\<rparr>
   \<and> (\<exists>sts s2. sync_assinantes sample_ratio Map.empty
         (default_self (scripted_client sample_rows))
         sample_assinantes True \<lparr>world = [False, True], calls = []\<rparr> = (Inr sts, s2))"
proof -
  define self where "self = default_self (scripted_client sample_rows)"
  define s where "s = \<lparr>world = [False, True], calls = []\<rparr>"
  define s1 where "s1 = \<lparr>world = [False, True], calls = [Select ''clientes'' True]\<rparr>"
  define expected where "expected = \<lparr>total_cashbarber = 4, total_supabase = 3, encontrados = 3,
    atualizados = 2, nao_encontrados = 1, erros = 1, nao_encontrados_lista = [''Ty'']\<rparr>"
  define final where
    "final = snd (sync_assinantes sample_ratio Map.empty self sample_assinantes False s)"
  have h: "get_all_clientes self s = (Inr sample_clientes, s1)"
    unfolding self_def s_def s1_def using sample_fetch[of "[False, True]" "[]"] by simp
  have a: "fst (sync_assinantes sample_ratio Map.empty self sample_assinantes False s)
      = Inr expected"
    unfolding self_def s_def expected_def by code_simp
  have r: "sync_assinantes sample_ratio Map.empty self sample_assinantes False s
      = (Inr expected, final)"
    using a unfolding final_def by (simp add: prod_eq_iff)
  have inv: "encontrados expected + nao_encontrados expected = total_cashbarber expected"
    using mp[OF conjunct1[OF stats_accounting
          [of sample_ratio Map.empty self sample_assinantes False s expected final]] r]
    by (elim conjE)
  have ex: "\<exists>sts s2. sync_assinantes sample_ratio Map.empty self sample_assinantes True s
      = (Inr sts, s2)"
    using mp[OF conjunct2[OF stats_accounting
          [of sample_ratio Map.empty self sample_assinantes True s _ _ sample_clientes s1]]]
      h sample_names
    by simp
  show ?thesis
    using a inv ex unfolding self_def s_def expected_def by simp
qed

subsection \<open>The timestamp column\<close>

text \<open>
  C7. \<open>update_cliente\<close> puts the timestamp column into the one request it sends, with
  the plan and the status, and has no second attempt without it. Against a table that
  has no column \<^verbatim>\<open>ultima_sincronizacao\<close> the request is rejected: the function
  returns \<^verbatim>\<open>False\<close> and neither the plan nor the status is written.
\<close>

theorem update_cliente_missing_timestamp_column:
  "update_cliente Map.empty (default_self table_client) (Some ''c1'') ''Ouro'' ''ativo'' True
     \<lparr>world = \<lparr>table_columns = [''id'', ''nome'', ''plano_atual'', ''status_assinatura''],
                table_rows = sample_rows\<rparr>,
      calls = []\<rparr>
   = (False,
      \<lparr>world = \<lparr>table_columns = [''id'', ''nome'', ''plano_atual'', ''status_assinatura''],
                 table_rows = sample_rows\<rparr>,
       calls = [Update ''clientes''
                  [(''plano_atual'', ''Ouro''), (''status_assinatura'', ''ativo''),
                   (''ultima_sincronizacao'', ''now()'')] (Some ''c1'') False]\<rparr>)"
  by code_simp

end
